theory Spec2Isabelle
  imports Complex_Main "HOL-Library.AList"
begin

section \<open>Values, errors and arrays\<close>

text \<open>
  Numbers are exact rationals: the arrays of the source hold counts and ratios of counts,
  and every claim below is an identity of sums, products and quotients. An exception is a
  value \<open>Inl e\<close>; a division that yields no number (nan or inf in numpy) is the cell
  \<open>NaN\<close>.
\<close>

datatype error = IndexError | KeyError | ValueError | TypeError | ZeroDivisionError | AssertionError

type_synonym vec = "rat list"
type_synonym matrix = "rat list list"

definition then_do :: "error + 'a \<Rightarrow> ('a \<Rightarrow> error + 'b) \<Rightarrow> error + 'b" where
  "then_do m f = (case m of Inl e \<Rightarrow> Inl e | Inr x \<Rightarrow> f x)"

text \<open>A \<open>for\<close> loop over a list whose body may raise: the first exception ends the loop.\<close>

fun for_each :: "('a \<Rightarrow> 's \<Rightarrow> error + 's) \<Rightarrow> 'a list \<Rightarrow> 's \<Rightarrow> error + 's" where
  "for_each body [] s = Inr s"
| "for_each body (x # xs) s = (case body x s of Inl e \<Rightarrow> Inl e | Inr s' \<Rightarrow> for_each body xs s')"

text \<open>A Python dict is an association list in insertion order: \<open>d[k] = v\<close> is
  \<open>AList.update k v d\<close>, and \<open>d[k]\<close> raises KeyError on a missing key.\<close>

definition dict_get :: "('k \<times> 'v) list \<Rightarrow> 'k \<Rightarrow> error + 'v" where
  "dict_get d k = (case map_of d k of None \<Rightarrow> Inl KeyError | Some v \<Rightarrow> Inr v)"

definition dict_from_keys :: "'k list \<Rightarrow> 'v \<Rightarrow> ('k \<times> 'v) list" where
  "dict_from_keys ks v = foldl (\<lambda>d k. AList.update k v d) [] ks"

text \<open>numpy: \<open>np.zeros\<close>, elementwise \<open>+\<close> and \<open>*\<close> on arrays of one shape, \<open>np.sum\<close>,
  \<open>np.count_nonzero\<close>. Every \<open>+=\<close> of the source adds two arrays that were built with the
  same shape, so the elementwise sum is \<open>map2\<close>.\<close>

definition zeros :: "nat \<Rightarrow> vec" where
  "zeros n = replicate n 0"

definition zeros2 :: "nat \<Rightarrow> nat \<Rightarrow> matrix" where
  "zeros2 r c = replicate r (zeros c)"

definition vec_add :: "vec \<Rightarrow> vec \<Rightarrow> vec" where
  "vec_add a b = map2 (+) a b"

definition mat_add :: "matrix \<Rightarrow> matrix \<Rightarrow> matrix" where
  "mat_add a b = map2 vec_add a b"

definition mat_scale :: "matrix \<Rightarrow> rat \<Rightarrow> matrix" where
  "mat_scale a w = map (map (\<lambda>x. x * w)) a"

definition np_sum :: "vec \<Rightarrow> rat" where
  "np_sum v = sum_list v"

definition np_sum2 :: "matrix \<Rightarrow> rat" where
  "np_sum2 cm = sum_list (map sum_list cm)"

definition count_nonzero :: "vec \<Rightarrow> nat" where
  "count_nonzero v = length (filter (\<lambda>x. x \<noteq> 0) v)"

text \<open>\<open>cm[i, :]\<close>, \<open>cm[:, i]\<close> and \<open>cm[i, i]\<close> of a two-dimensional array raise IndexError
  when \<open>i\<close> is not below both dimensions.\<close>

definition in_bounds :: "matrix \<Rightarrow> nat \<Rightarrow> bool" where
  "in_bounds cm i = (i < length cm \<and> (\<forall>r \<in> set cm. i < length r))"

definition row :: "matrix \<Rightarrow> nat \<Rightarrow> vec" where
  "row cm i = cm ! i"

definition col :: "matrix \<Rightarrow> nat \<Rightarrow> vec" where
  "col cm i = map (\<lambda>r. r ! i) cm"

section \<open>Observations of a class: \<open>get_obs_by_class_from_cm\<close>\<close>

record obs =
  tp :: rat
  fn :: rat
  fp :: rat
  tn :: rat

definition class_obs :: "matrix \<Rightarrow> nat \<Rightarrow> obs" where
  "class_obs cm i =
     \<lparr>tp = cm ! i ! i,
      fn = np_sum (row cm i) - cm ! i ! i,
      fp = np_sum (col cm i) - cm ! i ! i,
      tn = np_sum2 cm - np_sum (row cm i) - np_sum (col cm i) + cm ! i ! i\<rparr>"

definition obs_of_class :: "matrix \<Rightarrow> nat \<Rightarrow> error + obs" where
  "obs_of_class cm i = (if in_bounds cm i then Inr (class_obs cm i) else Inl IndexError)"

definition get_obs_by_class_from_cm :: "string list \<Rightarrow> matrix \<Rightarrow> error + (string \<times> obs) list" where
  "get_obs_by_class_from_cm class_labels cm =
     for_each (\<lambda>(i, class_i) obs_by_class.
                 then_do (obs_of_class cm i) (\<lambda>ob. Inr (AList.update class_i ob obs_by_class)))
              (enumerate 0 class_labels) []"

section \<open>The base class \<open>Metrics\<close>\<close>

text \<open>
  The file that defines the base class \<open>Metrics\<close> is not among the sources: its
  attributes are the fields of the record below, and its methods are modelled from the
  specification, each under a note that says so.
\<close>

record metrics =
  nbr_class :: nat
  class_labels :: "string list"
  threshold :: rat
  threshold_range :: "rat list"
  bit_depth :: string
  in_prob_range :: bool
  bins :: "rat list"

text \<open>Modelled from the spec: the attribute \<open>metrics_names\<close> of the missing base class,
  the metric table of section 4.3 in its fixed order, ending with FPR.\<close>

definition metrics_names :: "string list" where
  "metrics_names = [''Accuracy'', ''Precision'', ''Recall'', ''Specificity'', ''F1-Score'',
                    ''IoU'', ''Dice'', ''FPR'']"

text \<open>Python's \<open>/\<close> raises on a zero divisor (numpy yields nan or inf).\<close>

definition py_div :: "rat \<Rightarrow> rat \<Rightarrow> error + rat" where
  "py_div a b = (if b = 0 then Inl ZeroDivisionError else Inr (a / b))"

text \<open>Modelled from the spec: the zero-guard policy of section 4.3 of the missing method
  \<open>get_metrics_from_obs\<close>: a metric is 0 when its denominator is exactly 0, and the
  quotient otherwise.\<close>

definition guarded_div :: "rat \<Rightarrow> rat \<Rightarrow> error + rat" where
  "guarded_div a b = (if b = 0 then Inr 0 else py_div a b)"

text \<open>Modelled from the spec: the missing method \<open>get_metrics_from_obs\<close> of the base
  class (\<open>metrics_from_quadruple\<close> in section 4.3), with the formulas of the metric
  table.\<close>

definition get_metrics_from_obs :: "rat \<Rightarrow> rat \<Rightarrow> rat \<Rightarrow> rat \<Rightarrow> error + (string \<times> rat) list" where
  "get_metrics_from_obs n_tp n_fn n_fp n_tn =
     then_do (guarded_div (n_tp + n_tn) (n_tp + n_fn + n_fp + n_tn)) (\<lambda>accuracy.
     then_do (guarded_div n_tp (n_tp + n_fp)) (\<lambda>precision.
     then_do (guarded_div n_tp (n_tp + n_fn)) (\<lambda>recall.
     then_do (guarded_div n_tn (n_tn + n_fp)) (\<lambda>specificity.
     then_do (guarded_div (2 * precision * recall) (precision + recall)) (\<lambda>f1_score.
     then_do (guarded_div n_tp (n_tp + n_fn + n_fp)) (\<lambda>iou.
     then_do (guarded_div (2 * n_tp) (2 * n_tp + n_fn + n_fp)) (\<lambda>dice.
     then_do (guarded_div n_fp (n_fp + n_tn)) (\<lambda>fpr.
     Inr [(''Accuracy'', accuracy), (''Precision'', precision), (''Recall'', recall),
          (''Specificity'', specificity), (''F1-Score'', f1_score), (''IoU'', iou),
          (''Dice'', dice), (''FPR'', fpr)]))))))))"

text \<open>Modelled from the spec: the missing method \<open>binarize\<close> (section 4.1). In mode
  "binary" a value is positive when it is strictly above the threshold. In mode
  "multiclass" mask and prediction are reduced to the class index of each pixel by
  argmax over the channels, ties going to the lowest index.

  An image of shape (H, W, C) is held as its C channels, each the flattened list of its
  H * W pixel values: \<open>img[:, :, i].flatten()\<close> is \<open>img ! i\<close>.\<close>

definition binarize_binary :: "vec \<Rightarrow> rat \<Rightarrow> vec" where
  "binarize_binary prediction t = map (\<lambda>v. if v > t then 1 else 0) prediction"

fun argmax :: "rat list \<Rightarrow> nat" where
  "argmax [] = 0"
| "argmax [x] = 0"
| "argmax (x # y # ys) = (let j = argmax (y # ys) in if (y # ys) ! j \<le> x then 0 else Suc j)"

definition binarize_multiclass :: "vec list \<Rightarrow> vec list \<Rightarrow> error + vec \<times> vec" where
  "binarize_multiclass prediction msk =
     (if prediction = [] \<or> msk = [] then Inl ValueError
      else Inr (map (\<lambda>px. of_nat (argmax px)) (transpose msk),
                map (\<lambda>px. of_nat (argmax px)) (transpose prediction)))"

text \<open>Modelled from the spec: the missing method \<open>get_confusion_matrix\<close> (section 4.2):
  co-occurrence counts of two flat label arrays of equal length, rows the true class and
  columns the predicted class, over the labels \<open>0 .. n - 1\<close>; with \<open>revert_order\<close> the
  labels are taken in decreasing order, which for \<open>n = 2\<close> is [[tp, fn], [fp, tn]].\<close>

definition get_confusion_matrix :: "vec \<Rightarrow> vec \<Rightarrow> nat \<Rightarrow> bool \<Rightarrow> error + matrix" where
  "get_confusion_matrix y_true y_pred n revert_order =
     (if length y_true \<noteq> length y_pred then Inl ValueError
      else let labels = (if revert_order then rev [0..<n] else [0..<n])
           in Inr (map (\<lambda>r. map (\<lambda>c. of_nat (length (filter (\<lambda>(t, p). t = of_nat r \<and> p = of_nat c)
                                                            (zip y_true y_pred))))
                                  labels)
                       labels))"

text \<open>The bit depth table, as \<open>Statistics.__init__\<close> writes it and section 6 of the
  specification lists it.\<close>

definition depth_dict :: "(string \<times> rat) list" where
  "depth_dict = [(''keep'', 1), (''8 bits'', 255), (''12 bits'', 4095), (''14 bits'', 16383),
                 (''16 bits'', 65535)]"

text \<open>Modelled from the spec: the missing method \<open>to_prob_range\<close>: values of an integer
  bit depth are divided by the largest value of that depth.\<close>

definition to_prob_range :: "'a metrics_scheme \<Rightarrow> vec \<Rightarrow> error + vec" where
  "to_prob_range self v =
     then_do (dict_get depth_dict (bit_depth self)) (\<lambda>d. Inr (map (\<lambda>x. x / d) v))"

section \<open>Calibration bins: \<open>np.histogram\<close>, \<open>np.digitize\<close>, \<open>np.bincount\<close>\<close>

text \<open>\<open>np.histogram(a, bins)[0]\<close> for an array of bin edges: the edges must increase; bin
  \<open>k\<close> counts the values \<open>x\<close> with \<open>bins[k] \<le> x < bins[k+1]\<close>, the last bin also taking
  \<open>x = bins[-1]\<close>.\<close>

definition np_histogram :: "vec \<Rightarrow> vec \<Rightarrow> error + vec" where
  "np_histogram a edges =
     (if \<not> sorted edges then Inl ValueError
      else Inr (map (\<lambda>k. of_nat (length (filter
                      (\<lambda>x. edges ! k \<le> x \<and> (x < edges ! (k + 1) \<or> (k + 2 = length edges \<and> x = edges ! (k + 1))))
                      a)))
                    [0..<length edges - 1]))"

text \<open>\<open>np.digitize(a, bins)\<close> for increasing edges (the call to \<open>np.histogram\<close> on the
  line before has checked them): the number of edges that are at most the value.\<close>

definition np_digitize :: "vec \<Rightarrow> vec \<Rightarrow> int list" where
  "np_digitize a edges = map (\<lambda>x. int (length (filter (\<lambda>e. e \<le> x) edges))) a"

text \<open>\<open>np.bincount(ids, weights=w, minlength=m)\<close>: entry \<open>k\<close> is the sum of the weights at
  the positions whose id is \<open>k\<close>; a negative id or a weight array of another length
  raises ValueError. The result has \<open>max(m, max(ids) + 1)\<close> entries.\<close>

definition np_bincount :: "int list \<Rightarrow> vec \<Rightarrow> nat \<Rightarrow> error + vec" where
  "np_bincount ids w minlength =
     (if (\<exists>i \<in> set ids. i < 0) \<or> length w \<noteq> length ids then Inl ValueError
      else Inr (map (\<lambda>k. sum_list (map snd (filter (\<lambda>(i, x). i = int k) (zip ids w))))
                    [0..<foldr (\<lambda>i m. max (nat i + 1) m) ids minlength]))"

text \<open>A cell of a data frame or of a quotient of arrays: a number, a string, or NaN
  (an empty cell, or a quotient by zero).\<close>

datatype cell = NaN | Num rat | Str string

definition np_divide :: "vec \<Rightarrow> vec \<Rightarrow> cell list" where
  "np_divide a b = map2 (\<lambda>x y. if y = 0 then NaN else Num (x / y)) a b"

text \<open>\<open>a[m]\<close> for a boolean array \<open>m\<close>: the entries of \<open>a\<close> where \<open>m\<close> holds, in order;
  IndexError when the lengths differ.\<close>

definition mask_select :: "bool list \<Rightarrow> 'a list \<Rightarrow> error + 'a list" where
  "mask_select m a =
     (if length m \<noteq> length a then Inl IndexError
      else Inr (map snd (filter fst (zip m a))))"

definition calibration_curve :: "vec \<Rightarrow> vec \<Rightarrow> error + cell list" where
  "calibration_curve mass bin_total =
     (let nonzero = map (\<lambda>x. x \<noteq> 0) bin_total
      in then_do (mask_select nonzero mass) (\<lambda>num.
         then_do (mask_select nonzero bin_total) (\<lambda>den.
         Inr (np_divide num den))))"

section \<open>Data frames\<close>

text \<open>A pandas data frame is a finite map from (row label, column label) to its cell:
  \<open>df.loc[r, c]\<close> reads a cell and raises KeyError where there is none, and
  \<open>df.loc[r, c] = v\<close> writes it. The row and column labels of the frames below are
  distinct in every use that a theorem is stated for.\<close>

type_synonym ('r, 'v) frame = "'r \<times> string \<rightharpoonup> 'v"

definition new_frame :: "'r list \<Rightarrow> string list \<Rightarrow> 'v \<Rightarrow> ('r, 'v) frame" where
  "new_frame index columns v = (\<lambda>(r, c). if r \<in> set index \<and> c \<in> set columns then Some v else None)"

definition frame_get :: "('r, 'v) frame \<Rightarrow> 'r \<Rightarrow> string \<Rightarrow> error + 'v" where
  "frame_get df r c = (case df (r, c) of None \<Rightarrow> Inl KeyError | Some v \<Rightarrow> Inr v)"

definition frame_set :: "('r, 'v) frame \<Rightarrow> 'r \<Rightarrow> string \<Rightarrow> 'v \<Rightarrow> ('r, 'v) frame" where
  "frame_set df r c v = df((r, c) \<mapsto> v)"

text \<open>Arithmetic on cells: a string operand raises TypeError, NaN stays NaN, and a
  quotient by zero is NaN.\<close>

fun cell_scale :: "rat \<Rightarrow> cell \<Rightarrow> error + cell" where
  "cell_scale w (Num x) = Inr (Num (w * x))"
| "cell_scale w NaN = Inr NaN"
| "cell_scale w (Str s) = Inl TypeError"

fun cell_add :: "cell \<Rightarrow> cell \<Rightarrow> error + cell" where
  "cell_add (Num x) (Num y) = Inr (Num (x + y))"
| "cell_add (Str s) _ = Inl TypeError"
| "cell_add _ (Str s) = Inl TypeError"
| "cell_add _ _ = Inr NaN"

fun cell_div :: "cell \<Rightarrow> rat \<Rightarrow> error + cell" where
  "cell_div (Num x) d = Inr (if d = 0 then NaN else Num (x / d))"
| "cell_div NaN d = Inr NaN"
| "cell_div (Str s) d = Inl TypeError"

text \<open>\<open>np.round(x, decimals)\<close>: to the nearest multiple of \<open>10 ^ -decimals\<close>, a value
  half way between two of them going to the even one.\<close>

definition round_half_even :: "rat \<Rightarrow> int" where
  "round_half_even x =
     (let f = \<lfloor>x\<rfloor>; d = x - of_int f
      in if d < 1 / 2 then f else if 1 / 2 < d then f + 1 else if even f then f else f + 1)"

definition np_round :: "rat \<Rightarrow> nat \<Rightarrow> rat" where
  "np_round x decimals = of_int (round_half_even (x * 10 ^ decimals)) / 10 ^ decimals"

fun cell_round :: "cell \<Rightarrow> nat \<Rightarrow> cell" where
  "cell_round (Num x) decimals = Num (np_round x decimals)"
| "cell_round c decimals = c"

section \<open>The class \<open>Metrics_Multiclass\<close>\<close>

record sample =
  mask :: "vec list"
  pred :: "vec list"
  name_file :: string

text \<open>A cell of the frame \<open>cms_one_class\<close>: a 2 x 2 confusion matrix during the scan, the
  metric table that \<open>applymap\<close> puts in its place after it.\<close>

datatype cm_cell = Cm matrix | Metric_table "(string \<times> rat) list"

record metrics_multiclass = metrics +
  dataset :: "sample list"
  weights :: "rat list"
  weighted :: bool
  get_metrics_per_patch :: bool
  header :: "string list"
  df_dataset :: "(nat, cell) frame"
  df_report_classes :: "(string, cell) frame"
  df_report_micro :: "(string, cell) frame"
  df_report_macro :: "(string, cell) frame"
  cm_macro :: matrix
  cms_one_class :: "(rat, cm_cell) frame"
  dict_prob_true :: "(string \<times> cell list) list"
  dict_prob_pred :: "(string \<times> cell list) list"
  dict_hist_counts :: "(string \<times> vec) list"
  dict_bin_sums :: "(string \<times> vec) list"
  dict_bin_true :: "(string \<times> vec) list"
  dict_bin_total :: "(string \<times> vec) list"
  counts_sample_per_class :: "(string \<times> nat) list"
  vect_classes :: "(string \<times> (string \<times> rat list) list) list"
  metrics_by_class :: "(string \<times> (string \<times> rat) list) list"
  metrics_micro :: "(string \<times> rat) list"
  cms_classes :: "matrix list"
  cm_micro :: matrix

text \<open>\<open>'_'.join(label.split(' '))\<close>: every space becomes an underscore.\<close>

definition underscored :: "string \<Rightarrow> string" where
  "underscored label = map (\<lambda>c. if c = CHR '' '' then CHR ''_'' else c) label"

definition patch_column :: "string \<Rightarrow> string \<Rightarrow> string" where
  "patch_column label name_column = underscored label @ ''_'' @ name_column"

definition create_data_for_metrics :: "'a metrics_multiclass_scheme \<Rightarrow> 'a metrics_multiclass_scheme" where
  "create_data_for_metrics self =
     self\<lparr>df_report_classes := new_frame (class_labels self) (butlast metrics_names) NaN,
          df_report_micro := new_frame [''Values''] [''OA'', ''IoU''] NaN,
          df_report_macro :=
            (if weighted self
             then new_frame [''Average'', ''Weighted avg'', ''User weighted avg'']
                            [''Precision'', ''Recall'', ''F1-Score'', ''IoU''] NaN
             else new_frame [''Average'', ''Weighted avg'']
                            [''Precision'', ''Recall'', ''F1-Score'', ''IoU''] NaN)\<rparr>"

text \<open>The end of \<open>__init__\<close>: the report frames, and the frame of the rows per patch when
  they are asked for.\<close>

definition init_frames :: "'a metrics_multiclass_scheme \<Rightarrow> 'a metrics_multiclass_scheme" where
  "init_frames self0 =
     (let self = create_data_for_metrics self0
      in if get_metrics_per_patch self
         then let h = [''name_file''] @ [''OA'', ''micro_IoU'']
                      @ map (\<lambda>name_column. ''macro_'' @ name_column)
                            [''Precision'', ''Recall'', ''F1-Score'', ''IoU'']
                      @ map (\<lambda>name_column. ''mean_'' @ name_column) (butlast metrics_names)
                      @ concat (map (\<lambda>class_i. map (patch_column class_i) (butlast metrics_names))
                                    (class_labels self))
              in self\<lparr>header := h, df_dataset := new_frame [0..<length (dataset self)] h NaN\<rparr>
         else self)"

subsection \<open>\<open>get_metrics_from_cm\<close>\<close>

text \<open>\<open>cms_classes[i] = ...\<close> on an array of \<open>nbr_class\<close> matrices.\<close>

definition set_item :: "'a list \<Rightarrow> nat \<Rightarrow> 'a \<Rightarrow> error + 'a list" where
  "set_item xs i v = (if i < length xs then Inr (xs[i := v]) else Inl IndexError)"

definition obs_matrix :: "obs \<Rightarrow> matrix" where
  "obs_matrix ob = [[tp ob, fn ob], [fp ob, tn ob]]"

definition class_metrics_step ::
  "(string \<times> obs) list \<Rightarrow> nat \<times> string
     \<Rightarrow> matrix list \<times> (string \<times> (string \<times> rat) list) list
     \<Rightarrow> error + matrix list \<times> (string \<times> (string \<times> rat) list) list" where
  "class_metrics_step obs_by_class ic acc =
     (case ic of (i, class_i) \<Rightarrow> case acc of (cms, by_class) \<Rightarrow>
        then_do (dict_get obs_by_class class_i) (\<lambda>ob.
        then_do (set_item cms i (obs_matrix ob)) (\<lambda>cms'.
        then_do (get_metrics_from_obs (tp ob) (fn ob) (fp ob) (tn ob)) (\<lambda>m.
        Inr (cms', AList.update class_i m by_class)))))"

definition micro_matrix :: "'a metrics_multiclass_scheme \<Rightarrow> matrix list \<Rightarrow> matrix" where
  "micro_matrix self cms =
     (if weighted self
      then foldl (\<lambda>acc (k, weight). mat_add acc (mat_scale (cms ! k) weight)) (zeros2 2 2)
                 (zip [0..<nbr_class self] (weights self))
      else foldl mat_add (zeros2 2 2) cms)"

definition get_metrics_from_cm ::
  "'a metrics_multiclass_scheme \<Rightarrow> matrix
     \<Rightarrow> error + (string \<times> (string \<times> rat) list) list \<times> (string \<times> rat) list \<times> matrix list \<times> matrix" where
  "get_metrics_from_cm self cm =
     then_do (get_obs_by_class_from_cm (class_labels self) cm) (\<lambda>obs_by_class.
     then_do (for_each (class_metrics_step obs_by_class) (enumerate 0 (class_labels self))
                (replicate (nbr_class self) (zeros2 2 2), [])) (\<lambda>(cms, by_class).
     let micro = micro_matrix self cms
     in then_do (get_metrics_from_obs (micro ! 0 ! 0) (micro ! 0 ! 1) (micro ! 1 ! 0) (micro ! 1 ! 1))
          (\<lambda>m_micro. Inr (by_class, m_micro, cms, micro))))"

subsection \<open>\<open>scan_dataset\<close>\<close>

definition channel :: "vec list \<Rightarrow> nat \<Rightarrow> error + vec" where
  "channel img i = (if i < length img then Inr (img ! i) else Inl IndexError)"

text \<open>The accumulators are allocated anew at the start of every scan; the frame of the
  rows per patch is the one that \<open>__init__\<close> made.\<close>

definition scan_init :: "'a metrics_multiclass_scheme \<Rightarrow> error + 'a metrics_multiclass_scheme" where
  "scan_init self =
     (if class_labels self \<noteq> [] \<and> bins self = [] then Inl ValueError
      else Inr (self\<lparr>cm_macro := zeros2 (nbr_class self) (nbr_class self),
                     cms_one_class := new_frame (threshold_range self) (class_labels self) (Cm (zeros2 2 2)),
                     dict_prob_true := [],
                     dict_prob_pred := [],
                     dict_hist_counts := dict_from_keys (class_labels self) (zeros (length (bins self) - 1)),
                     dict_bin_sums := dict_from_keys (class_labels self) (zeros (length (bins self))),
                     dict_bin_true := dict_from_keys (class_labels self) (zeros (length (bins self))),
                     dict_bin_total := dict_from_keys (class_labels self) (zeros (length (bins self))),
                     counts_sample_per_class := dict_from_keys (class_labels self) 0\<rparr>))"

text \<open>The rows per patch (lines 213 to 236): the metrics of the sample's own confusion
  matrix, then the weighted means over the classes, read back from the row.\<close>

definition class_columns_step ::
  "(string \<times> (string \<times> rat) list) list \<Rightarrow> nat \<Rightarrow> string \<Rightarrow> string
     \<Rightarrow> (nat, cell) frame \<Rightarrow> error + (nat, cell) frame" where
  "class_columns_step by_class dataset_index label name_column df =
     then_do (dict_get by_class label) (\<lambda>m.
     then_do (dict_get m name_column) (\<lambda>v.
     Inr (frame_set df dataset_index (patch_column label name_column) (Num v))))"

definition mean_term :: "nat \<Rightarrow> string \<Rightarrow> (nat, cell) frame \<Rightarrow> string \<times> rat \<Rightarrow> cell \<Rightarrow> error + cell" where
  "mean_term dataset_index metric df cw mean_metric =
     (case cw of (class_name, weight) \<Rightarrow>
        then_do (frame_get df dataset_index (patch_column class_name metric)) (\<lambda>c.
        then_do (cell_scale weight c) (\<lambda>t.
        cell_add mean_metric t)))"

definition mean_columns_step ::
  "'a metrics_multiclass_scheme \<Rightarrow> nat \<Rightarrow> string \<Rightarrow> (nat, cell) frame \<Rightarrow> error + (nat, cell) frame" where
  "mean_columns_step self dataset_index metric df =
     then_do (for_each (mean_term dataset_index metric df) (zip (class_labels self) (weights self)) (Num 0))
       (\<lambda>mean_metric.
     then_do (cell_div mean_metric (of_nat (nbr_class self))) (\<lambda>q.
     let df1 = frame_set df dataset_index (''mean_'' @ metric) q
     in if metric \<in> set [''Precision'', ''Recall'', ''F1-Score'', ''IoU'']
        then Inr (frame_set df1 dataset_index (''macro_'' @ metric) q)
        else Inr df1))"

definition patch_metrics ::
  "nat \<Rightarrow> string \<Rightarrow> matrix \<Rightarrow> 'a metrics_multiclass_scheme \<Rightarrow> error + 'a metrics_multiclass_scheme" where
  "patch_metrics dataset_index name cm self =
     then_do (get_metrics_from_cm self cm) (\<lambda>(by_class, m_micro, _, _).
     let df1 = frame_set (df_dataset self) dataset_index ''name_file'' (Str name)
     in then_do (dict_get m_micro ''Precision'') (\<lambda>p.
        let df2 = frame_set df1 dataset_index ''OA'' (Num p)
        in then_do (dict_get m_micro ''IoU'') (\<lambda>u.
           let df3 = frame_set df2 dataset_index ''micro_IoU'' (Num u)
           in then_do (for_each (\<lambda>label. for_each (class_columns_step by_class dataset_index label)
                                                    (butlast metrics_names))
                                (class_labels self) df3) (\<lambda>df4.
              then_do (for_each (mean_columns_step self dataset_index) (butlast metrics_names) df4)
                (\<lambda>df5. Inr (self\<lparr>df_dataset := df5\<rparr>))))))"

text \<open>Lines 206 to 236, under the guard \<open>threshold == self.threshold and i == 0\<close>.\<close>

definition macro_step ::
  "nat \<times> sample \<Rightarrow> 'a metrics_multiclass_scheme \<Rightarrow> error + 'a metrics_multiclass_scheme" where
  "macro_step ds self =
     (case ds of (dataset_index, smp) \<Rightarrow>
        then_do (binarize_multiclass (pred smp) (mask smp)) (\<lambda>(mask_macro, pred_macro).
        then_do (get_confusion_matrix mask_macro pred_macro (nbr_class self) False) (\<lambda>cm.
        let self1 = self\<lparr>cm_macro := mat_add (cm_macro self) cm\<rparr>
        in if get_metrics_per_patch self1
           then patch_metrics dataset_index (name_file smp) cm self1
           else Inr self1)))"

text \<open>\<open>d[k] += v\<close> on a dict of arrays.\<close>

definition dict_iadd :: "(string \<times> vec) list \<Rightarrow> string \<Rightarrow> error + vec \<Rightarrow> error + (string \<times> vec) list" where
  "dict_iadd d k rhs =
     then_do (dict_get d k) (\<lambda>old.
     then_do rhs (\<lambda>v. Inr (AList.update k (vec_add old v) d)))"

text \<open>Lines 240 to 257, under the guard \<open>threshold == self.threshold\<close>.\<close>

definition calibration_step ::
  "sample \<Rightarrow> nat \<times> string \<Rightarrow> 'a metrics_multiclass_scheme \<Rightarrow> error + 'a metrics_multiclass_scheme" where
  "calibration_step smp ic self =
     (case ic of (i, class_i) \<Rightarrow>
        then_do (channel (pred smp) i) (\<lambda>pred_raw.
        then_do (channel (mask smp) i) (\<lambda>mask_hist.
        then_do (if \<not> in_prob_range self then to_prob_range self pred_raw else Inr pred_raw) (\<lambda>pred_hist.
        then_do (dict_iadd (dict_hist_counts self) class_i (np_histogram pred_hist (bins self))) (\<lambda>hc.
        let binids = map (\<lambda>b. b - 1) (np_digitize pred_hist (bins self))
        in then_do (dict_iadd (dict_bin_sums self) class_i
                      (np_bincount binids pred_hist (length (bins self)))) (\<lambda>bs.
           then_do (dict_iadd (dict_bin_true self) class_i
                      (np_bincount binids mask_hist (length (bins self)))) (\<lambda>bt.
           then_do (dict_iadd (dict_bin_total self) class_i
                      (np_bincount binids (replicate (length binids) 1) (length (bins self)))) (\<lambda>bn.
           Inr (self\<lparr>dict_hist_counts := hc, dict_bin_sums := bs, dict_bin_true := bt,
                     dict_bin_total := bn\<rparr>)))))))))"

text \<open>The body of the loop over the thresholds (lines 194 to 257).\<close>

definition threshold_step ::
  "nat \<times> sample \<Rightarrow> nat \<times> string \<Rightarrow> rat \<Rightarrow> 'a metrics_multiclass_scheme
     \<Rightarrow> error + 'a metrics_multiclass_scheme" where
  "threshold_step ds ic t self =
     (case ic of (i, class_i) \<Rightarrow>
        then_do (channel (mask (snd ds)) i) (\<lambda>class_mask.
        then_do (channel (pred (snd ds)) i) (\<lambda>class_pred.
        then_do (dict_get (counts_sample_per_class self) class_i) (\<lambda>n.
        let self1 = self\<lparr>counts_sample_per_class :=
                           AList.update class_i (n + count_nonzero class_mask) (counts_sample_per_class self)\<rparr>;
            bin_pred = binarize_binary class_pred t
        in then_do (get_confusion_matrix class_mask bin_pred 2 True) (\<lambda>cr_cm.
           then_do (frame_get (cms_one_class self1) t class_i) (\<lambda>old.
           then_do (case old of Cm m \<Rightarrow> Inr (Cm (mat_add m cr_cm)) | Metric_table _ \<Rightarrow> Inl TypeError) (\<lambda>new.
           let self2 = self1\<lparr>cms_one_class := frame_set (cms_one_class self1) t class_i new\<rparr>
           in then_do (if t = threshold self2 \<and> i = 0 then macro_step ds self2 else Inr self2) (\<lambda>self3.
              if t = threshold self3 then calibration_step (snd ds) ic self3 else Inr self3))))))))"

definition class_step ::
  "nat \<times> sample \<Rightarrow> nat \<times> string \<Rightarrow> 'a metrics_multiclass_scheme \<Rightarrow> error + 'a metrics_multiclass_scheme" where
  "class_step ds ic self = for_each (threshold_step ds ic) (threshold_range self) self"

definition sample_step ::
  "nat \<times> sample \<Rightarrow> 'a metrics_multiclass_scheme \<Rightarrow> error + 'a metrics_multiclass_scheme" where
  "sample_step ds self = for_each (class_step ds) (enumerate 0 (class_labels self)) self"

text \<open>After the loops (lines 259 to 279): the metric tables of the 2 x 2 matrices, the
  calibration curves and the curve vectors of every class.\<close>

definition applymap_step ::
  "rat \<times> string \<Rightarrow> (rat, cm_cell) frame \<Rightarrow> error + (rat, cm_cell) frame" where
  "applymap_step k df =
     (case k of (t, class_i) \<Rightarrow>
        then_do (frame_get df t class_i) (\<lambda>c.
        case c of
          Cm m \<Rightarrow> then_do (get_metrics_from_obs (m ! 0 ! 0) (m ! 0 ! 1) (m ! 1 ! 0) (m ! 1 ! 1))
                    (\<lambda>tbl. Inr (frame_set df t class_i (Metric_table tbl)))
        | Metric_table _ \<Rightarrow> Inl TypeError))"

definition curve_vector :: "(rat, cm_cell) frame \<Rightarrow> rat list \<Rightarrow> string \<Rightarrow> string \<Rightarrow> error + rat list" where
  "curve_vector df index class_j name =
     for_each (\<lambda>t acc. then_do (frame_get df t class_j) (\<lambda>c.
                 case c of
                   Metric_table tbl \<Rightarrow> then_do (dict_get tbl name) (\<lambda>v. Inr (acc @ [v]))
                 | Cm _ \<Rightarrow> Inl TypeError))
              index []"

definition finish_class ::
  "string \<Rightarrow> 'a metrics_multiclass_scheme \<Rightarrow> error + 'a metrics_multiclass_scheme" where
  "finish_class class_j self =
     then_do (dict_get (dict_bin_total self) class_j) (\<lambda>total.
     then_do (dict_get (dict_bin_true self) class_j) (\<lambda>true_mass.
     then_do (calibration_curve true_mass total) (\<lambda>prob_true.
     then_do (dict_get (dict_bin_sums self) class_j) (\<lambda>pred_mass.
     then_do (calibration_curve pred_mass total) (\<lambda>prob_pred.
     let self1 = self\<lparr>dict_prob_true := AList.update class_j prob_true (dict_prob_true self),
                       dict_prob_pred := AList.update class_j prob_pred (dict_prob_pred self)\<rparr>
     in then_do (curve_vector (cms_one_class self1) (threshold_range self1) class_j ''Recall'') (\<lambda>rec.
        then_do (curve_vector (cms_one_class self1) (threshold_range self1) class_j ''FPR'') (\<lambda>fpr.
        then_do (curve_vector (cms_one_class self1) (threshold_range self1) class_j ''Precision'') (\<lambda>prec.
        Inr (self1\<lparr>vect_classes :=
                     AList.update class_j [(''Recall'', rec), (''FPR'', fpr), (''Precision'', prec)]
                       (vect_classes self1)\<rparr>)))))))))"

definition scan_finish :: "'a metrics_multiclass_scheme \<Rightarrow> error + 'a metrics_multiclass_scheme" where
  "scan_finish self =
     then_do (for_each applymap_step
                (remdups (List.product (threshold_range self) (class_labels self)))
                (cms_one_class self)) (\<lambda>df.
     for_each finish_class (class_labels self) (self\<lparr>cms_one_class := df, vect_classes := []\<rparr>))"

definition scan_loop :: "'a metrics_multiclass_scheme \<Rightarrow> error + 'a metrics_multiclass_scheme" where
  "scan_loop self = for_each sample_step (enumerate 0 (dataset self)) self"

definition scan_dataset :: "'a metrics_multiclass_scheme \<Rightarrow> error + 'a metrics_multiclass_scheme" where
  "scan_dataset self = then_do (scan_init self) (\<lambda>self0. then_do (scan_loop self0) scan_finish)"

subsection \<open>\<open>metrics_to_df_reports\<close> and \<open>run\<close>\<close>

text \<open>\<open>df.loc[r] = values\<close>: the values go to the columns of the row in order; another
  number of values raises ValueError.\<close>

definition set_row :: "('r, cell) frame \<Rightarrow> 'r \<Rightarrow> string list \<Rightarrow> cell list \<Rightarrow> error + ('r, cell) frame" where
  "set_row df r columns vals =
     (if length columns \<noteq> length vals then Inl ValueError
      else Inr (fold (\<lambda>(c, v) d. frame_set d r c v) (zip columns vals) df))"

text \<open>\<open>df.mean()\<close> of one column over the rows of the index: the mean of its numbers, NaN
  when it has none.\<close>

definition column_mean :: "('r, cell) frame \<Rightarrow> 'r list \<Rightarrow> string \<Rightarrow> cell" where
  "column_mean df index c =
     (let xs = concat (map (\<lambda>r. case df (r, c) of Some (Num x) \<Rightarrow> [x] | _ \<Rightarrow> []) index)
      in if xs = [] then NaN else Num (sum_list xs / of_nat (length xs)))"

definition class_rows_step ::
  "'a metrics_multiclass_scheme \<Rightarrow> string \<Rightarrow> (string, cell) frame \<Rightarrow> error + (string, cell) frame" where
  "class_rows_step self class_i df =
     then_do (dict_get (metrics_by_class self) class_i) (\<lambda>m.
     set_row df class_i (butlast metrics_names) (map Num (butlast (map snd m))))"

definition weighted_term ::
  "'a metrics_multiclass_scheme \<Rightarrow> (string, cell) frame \<Rightarrow> string \<Rightarrow> nat \<times> string \<Rightarrow> cell \<times> cell
     \<Rightarrow> error + cell \<times> cell" where
  "weighted_term self df metric ic acc =
     (case ic of (i, class_i) \<Rightarrow> case acc of (weighted_avg, user_weighted_avg) \<Rightarrow>
        then_do (frame_get df class_i metric) (\<lambda>c.
        then_do (dict_get (counts_sample_per_class self) class_i) (\<lambda>n.
        then_do (cell_scale (of_nat n) c) (\<lambda>t.
        then_do (cell_add weighted_avg t) (\<lambda>weighted_avg'.
        if weighted self
        then then_do (frame_get df class_i metric) (\<lambda>c'.
             then_do (if i < length (weights self) then Inr (weights self ! i) else Inl IndexError) (\<lambda>w.
             then_do (cell_scale w c') (\<lambda>u.
             then_do (cell_add user_weighted_avg u) (\<lambda>user_weighted_avg'.
             Inr (weighted_avg', user_weighted_avg')))))
        else Inr (weighted_avg', user_weighted_avg))))))"

definition macro_metric_step ::
  "'a metrics_multiclass_scheme \<Rightarrow> (string, cell) frame \<Rightarrow> rat \<Rightarrow> string \<Rightarrow> (string, cell) frame
     \<Rightarrow> error + (string, cell) frame" where
  "macro_metric_step self df total_positive_obs metric macro =
     then_do (for_each (weighted_term self df metric) (enumerate 0 (class_labels self)) (Num 0, Num 0))
       (\<lambda>(weighted_avg, user_weighted_avg).
     then_do (cell_div weighted_avg total_positive_obs) (\<lambda>q.
     let macro1 = frame_set macro ''Weighted avg'' metric (cell_round q 2)
     in if weighted self
        then then_do (cell_div user_weighted_avg (of_nat (nbr_class self))) (\<lambda>uq.
             Inr (frame_set macro1 ''User weighted avg'' metric (cell_round uq 2)))
        else Inr macro1))"

definition metrics_to_df_reports :: "'a metrics_multiclass_scheme \<Rightarrow> error + 'a metrics_multiclass_scheme" where
  "metrics_to_df_reports self =
     then_do (for_each (class_rows_step self) (class_labels self) (df_report_classes self)) (\<lambda>df0.
     then_do (set_row df0 ''Overall'' (butlast metrics_names)
                (map (column_mean df0 (class_labels self)) (butlast metrics_names))) (\<lambda>df.
     then_do (frame_get df ''Overall'' ''Precision'') (\<lambda>o_p.
     then_do (frame_get df ''Overall'' ''Recall'') (\<lambda>o_r.
     then_do (frame_get df ''Overall'' ''F1-Score'') (\<lambda>o_f.
     then_do (frame_get df ''Overall'' ''IoU'') (\<lambda>o_i.
     then_do (set_row (df_report_macro self) ''Average'' [''Precision'', ''Recall'', ''F1-Score'', ''IoU'']
                [o_p, o_r, o_f, o_i]) (\<lambda>macro0.
     let total_positive_obs = of_nat (sum_list (map snd (counts_sample_per_class self)))
     in then_do (for_each (macro_metric_step self df total_positive_obs)
                   [''Precision'', ''Recall'', ''F1-Score'', ''IoU''] macro0) (\<lambda>macro.
        then_do (dict_get (metrics_micro self) ''Precision'') (\<lambda>m_p.
        then_do (dict_get (metrics_micro self) ''IoU'') (\<lambda>m_i.
        then_do (set_row (df_report_micro self) ''Values'' [''OA'', ''IoU''] [Num m_p, Num m_i]) (\<lambda>micro.
        Inr (self\<lparr>df_report_classes := df, df_report_macro := macro, df_report_micro := micro\<rparr>))))))))))))"


section \<open>The class \<open>Metrics_Binary\<close>\<close>

text \<open>A mask or a prediction of shape (H, W) is the flattened list of its pixel values.
  The four calibration accumulators are local arrays of \<open>get_metrics_by_threshold\<close>:
  \<open>(hist_counts, bin_sums, bin_true, bin_total)\<close>.\<close>

type_synonym calib = "vec \<times> vec \<times> vec \<times> vec"

record metrics_binary = metrics +
  masks :: "vec list"
  preds :: "vec list"
  cms :: "(rat \<times> matrix) list"
  df_thresholds :: "(nat, cell) frame"
  df_report_metrics :: "(string, cell) frame"
  hist_counts :: "cell list"
  prob_true :: "cell list"
  prob_pred :: "cell list"

definition binary_create_data_for_metrics :: "'a metrics_binary_scheme \<Rightarrow> 'a metrics_binary_scheme" where
  "binary_create_data_for_metrics self =
     self\<lparr>df_thresholds :=
            fold (\<lambda>(k, t) d. frame_set d k ''threshold'' (Num t))
                 (enumerate 0 (threshold_range self))
                 (new_frame [0..<length (threshold_range self)] (''threshold'' # metrics_names) NaN),
          cms := [],
          df_report_metrics := new_frame [''Values''] (butlast metrics_names) NaN\<rparr>"

text \<open>Lines 71 to 84: one update of the four accumulators from one sample.\<close>

definition calibration_update :: "'a metrics_binary_scheme \<Rightarrow> vec \<times> vec \<Rightarrow> calib \<Rightarrow> error + calib" where
  "calibration_update self mp acc =
     (case mp of (msk, prd) \<Rightarrow> case acc of (hc, bin_sums, bin_true, bin_total) \<Rightarrow>
        then_do (if \<not> in_prob_range self then to_prob_range self prd else Inr prd) (\<lambda>pred_hist.
        then_do (np_histogram pred_hist (bins self)) (\<lambda>h.
        let binids = map (\<lambda>b. b - 1) (np_digitize pred_hist (bins self))
        in then_do (np_bincount binids pred_hist (length (bins self))) (\<lambda>bs.
           then_do (np_bincount binids msk (length (bins self))) (\<lambda>bt.
           then_do (np_bincount binids (replicate (length binids) 1) (length (bins self))) (\<lambda>bn.
           Inr (vec_add hc h, vec_add bin_sums bs, vec_add bin_true bt, vec_add bin_total bn)))))))"

text \<open>The call \<open>self.get_confusion_matrix(mask.flatten(), pred_cm.flatten())\<close> leaves the
  size and the order to the defaults of the missing method: they are taken as
  \<open>self.nbr_class\<close> and the order that \<open>get_metrics_from_cm\<close> unpacks,
  [[tp, fn], [fp, tn]].\<close>

definition binary_sample_step ::
  "rat \<Rightarrow> vec \<times> vec \<Rightarrow> 'a metrics_binary_scheme \<times> calib \<Rightarrow> error + 'a metrics_binary_scheme \<times> calib" where
  "binary_sample_step t mp st =
     (case st of (self, acc) \<Rightarrow>
        let pred_cm = binarize_binary (snd mp) t
        in then_do (get_confusion_matrix (fst mp) pred_cm (nbr_class self) True) (\<lambda>cm.
           then_do (dict_get (cms self) t) (\<lambda>old.
           let self1 = self\<lparr>cms := AList.update t (mat_add old cm) (cms self)\<rparr>
           in then_do (case threshold_range self1 of [] \<Rightarrow> Inl IndexError | t0 # _ \<Rightarrow> Inr t0) (\<lambda>t0.
              if t = t0
              then then_do (calibration_update self1 mp acc) (\<lambda>acc'. Inr (self1, acc'))
              else Inr (self1, acc)))))"

text \<open>\<open>tp, fn, fp, tn = cm.ravel()\<close> raises ValueError unless the matrix has four entries.\<close>

definition binary_get_metrics_from_cm :: "matrix \<Rightarrow> error + (string \<times> rat) list" where
  "binary_get_metrics_from_cm cm =
     (case concat cm of
        [n_tp, n_fn, n_fp, n_tn] \<Rightarrow> get_metrics_from_obs n_tp n_fn n_fp n_tn
      | _ \<Rightarrow> Inl ValueError)"

text \<open>\<open>df.loc[df['threshold'] == t, metric] = v\<close>: the cell is written in every row whose
  threshold is \<open>t\<close>.\<close>

definition set_where_threshold :: "(nat, cell) frame \<Rightarrow> nat \<Rightarrow> rat \<Rightarrow> string \<Rightarrow> cell \<Rightarrow> (nat, cell) frame" where
  "set_where_threshold df n t metric v =
     (let rows = filter (\<lambda>k. df (k, ''threshold'') = Some (Num t)) [0..<n]
      in fold (\<lambda>k d. frame_set d k metric v) rows df)"

definition binary_threshold_step ::
  "rat \<Rightarrow> 'a metrics_binary_scheme \<times> calib \<Rightarrow> error + 'a metrics_binary_scheme \<times> calib" where
  "binary_threshold_step t st =
     (case st of (self, acc) \<Rightarrow>
        let self0 = self\<lparr>cms := AList.update t (zeros2 (nbr_class self) (nbr_class self)) (cms self)\<rparr>
        in then_do (for_each (binary_sample_step t) (zip (masks self0) (preds self0)) (self0, acc))
             (\<lambda>(self1, acc1).
           then_do (dict_get (cms self1) t) (\<lambda>cm.
           then_do (binary_get_metrics_from_cm cm) (\<lambda>cr_metrics.
           Inr (self1\<lparr>df_thresholds :=
                        fold (\<lambda>(metric, v) d.
                                set_where_threshold d (length (threshold_range self1)) t metric (Num v))
                             cr_metrics (df_thresholds self1)\<rparr>,
                acc1)))))"

text \<open>The loop over the thresholds (lines 54 to 89), with the accumulators it leaves.\<close>

definition threshold_loop :: "'a metrics_binary_scheme \<Rightarrow> error + 'a metrics_binary_scheme \<times> calib" where
  "threshold_loop self =
     for_each binary_threshold_step (threshold_range self)
       (self, (zeros (length (bins self) - 1), zeros (length (bins self)), zeros (length (bins self)),
               zeros (length (bins self))))"

text \<open>Lines 91 to 98. The last statement assigns the rows of \<open>df_thresholds\<close> at the
  operating threshold, a two-dimensional array, to one row: the shapes agree when there is
  exactly one such row.\<close>

definition binary_finish :: "'a metrics_binary_scheme \<times> calib \<Rightarrow> error + 'a metrics_binary_scheme" where
  "binary_finish st =
     (case st of (self, (hc, bin_sums, bin_true, bin_total)) \<Rightarrow>
        then_do (calibration_curve bin_true bin_total) (\<lambda>pt.
        then_do (calibration_curve bin_sums bin_total) (\<lambda>pp.
        let self1 = self\<lparr>hist_counts := np_divide hc (replicate (length hc) (np_sum hc)),
                          prob_true := pt, prob_pred := pp\<rparr>
        in case filter (\<lambda>k. df_thresholds self1 (k, ''threshold'') = Some (Num (threshold self1)))
                       [0..<length (threshold_range self1)] of
             [k] \<Rightarrow> then_do (for_each (\<lambda>c acc. then_do (frame_get (df_thresholds self1) k c)
                                                   (\<lambda>v. Inr (acc @ [v])))
                                       (butlast metrics_names) []) (\<lambda>vals.
                    then_do (set_row (df_report_metrics self1) ''Values'' (butlast metrics_names) vals)
                      (\<lambda>rep. Inr (self1\<lparr>df_report_metrics := rep\<rparr>)))
           | _ \<Rightarrow> Inl ValueError)))"

definition get_metrics_by_threshold :: "'a metrics_binary_scheme \<Rightarrow> error + 'a metrics_binary_scheme" where
  "get_metrics_by_threshold self = then_do (threshold_loop self) binary_finish"

section \<open>The bit depth of \<open>Statistics\<close>\<close>

text \<open>\<open>Statistics.__init__\<close> up to the number of batches (lines 79 to 110): what follows
  (the data frames, the scan and the report) reads the bit depth only through
  \<open>self.bit_depth\<close> and \<open>self.depth_dict\<close>. The warnings sent to the logger are collected
  in \<open>warnings\<close>.\<close>

record patch_dataset =
  image_files :: "string list"
  image_bands :: "nat list option"
  mask_bands :: "nat list option"
  width :: "nat option"
  height :: "nat option"

record statistics =
  nbr_bands :: nat
  nbr_classes :: nat
  nbr_pixels_per_patch :: nat
  nbr_total_pixel :: nat
  bit_depth :: string
  nbr_bins :: nat
  bins :: "rat list"
  norm_bins :: "rat list"
  batch_size :: nat
  num_workers :: nat
  nbr_batches :: nat
  warnings :: "string list"

definition BIT_DEPTH :: string where
  "BIT_DEPTH = ''8 bits''"

definition bit_depth_warning :: string where
  "bit_depth_warning = ''WARNING: the pixel depth input in the configuration file is not correct.''"

text \<open>Lines 92 to 98: the tag that is kept, and the warnings it causes.\<close>

definition select_bit_depth :: "string \<Rightarrow> string \<times> string list" where
  "select_bit_depth tag =
     (if tag \<in> set (map fst depth_dict) then (tag, []) else (BIT_DEPTH, [bit_depth_warning]))"

text \<open>Python's \<open>round(x, 3)\<close> rounds as \<open>np.round\<close> does.\<close>

definition get_bins :: "string \<Rightarrow> nat \<Rightarrow> rat list option \<Rightarrow> error + rat list \<times> rat list" where
  "get_bins depth n bins_arg =
     then_do (dict_get depth_dict depth) (\<lambda>max_pixel_value.
     then_do (case bins_arg of
                Some b \<Rightarrow> Inr b
              | None \<Rightarrow> then_do (for_each (\<lambda>i acc. then_do (py_div (of_nat i) (of_nat n))
                                             (\<lambda>q. Inr (acc @ [np_round (q * max_pixel_value) 3])))
                                   [0..<n] [])
                          (\<lambda>b. Inr (b @ [max_pixel_value]))) (\<lambda>b.
     then_do (for_each (\<lambda>x acc. then_do (py_div x max_pixel_value) (\<lambda>q. Inr (acc @ [np_round q 3]))) b [])
       (\<lambda>bins_norm. Inr (b, bins_norm))))"

definition the_or_type_error :: "'a option \<Rightarrow> error + 'a" where
  "the_or_type_error x = (case x of None \<Rightarrow> Inl TypeError | Some v \<Rightarrow> Inr v)"

definition Statistics_init ::
  "patch_dataset \<Rightarrow> rat list option \<Rightarrow> nat \<Rightarrow> string \<Rightarrow> nat \<Rightarrow> nat \<Rightarrow> error + statistics" where
  "Statistics_init ds bins_arg nbr_bins_arg bit_depth_arg batch_size_arg num_workers_arg =
     then_do (the_or_type_error (image_bands ds)) (\<lambda>ib.
     then_do (the_or_type_error (mask_bands ds)) (\<lambda>mb.
     then_do (the_or_type_error (height ds)) (\<lambda>h.
     then_do (the_or_type_error (width ds)) (\<lambda>w.
     let n = length (image_files ds);
         (depth, ws) = select_bit_depth bit_depth_arg
     in then_do (get_bins depth nbr_bins_arg bins_arg) (\<lambda>(b, bn).
        if \<not> batch_size_arg \<le> n then Inl AssertionError
        else then_do (if batch_size_arg = 0 then Inl ZeroDivisionError else Inr ()) (\<lambda>_.
             Inr \<lparr>nbr_bands = length ib, nbr_classes = length mb, nbr_pixels_per_patch = h * w,
                   nbr_total_pixel = n * (h * w), bit_depth = depth, nbr_bins = nbr_bins_arg,
                   bins = b, norm_bins = bn, batch_size = batch_size_arg, num_workers = num_workers_arg,
                   nbr_batches = (if n mod batch_size_arg = 0 then n div batch_size_arg
                                  else n div batch_size_arg + 1),
                   warnings = ws\<rparr>))))))"

definition to_pixel_input_range :: "statistics \<Rightarrow> rat \<Rightarrow> error + rat" where
  "to_pixel_input_range self v =
     then_do (dict_get depth_dict (bit_depth self)) (\<lambda>d. Inr (v * d))"

section \<open>Notions used in the statements\<close>

text \<open>The joint confusion matrix of one sample (lines 208 and 209): argmax over the
  channels of the mask and of the prediction, then the co-occurrence counts.\<close>

definition joint_cm :: "nat \<Rightarrow> sample \<Rightarrow> error + matrix" where
  "joint_cm n smp =
     then_do (binarize_multiclass (pred smp) (mask smp)) (\<lambda>(mask_macro, pred_macro).
     get_confusion_matrix mask_macro pred_macro n False)"

text \<open>An object with everything that a scan accumulates cleared; two objects differ at
  most in what a scan accumulates when clearing makes them equal.\<close>

definition cleared :: "'a metrics_multiclass_scheme \<Rightarrow> 'a metrics_multiclass_scheme" where
  "cleared s =
     s\<lparr>df_dataset := Map.empty, cm_macro := [], cms_one_class := Map.empty,
       dict_prob_true := [], dict_prob_pred := [], dict_hist_counts := [], dict_bin_sums := [],
       dict_bin_true := [], dict_bin_total := [], counts_sample_per_class := [], vect_classes := []\<rparr>"

definition only_accumulators :: "'a metrics_multiclass_scheme \<Rightarrow> 'a metrics_multiclass_scheme \<Rightarrow> bool" where
  "only_accumulators s s' \<longleftrightarrow> cleared s' = cleared s"






text \<open>A matrix of \<open>n\<close> rows and \<open>n\<close> columns.\<close>

definition square :: "nat \<Rightarrow> matrix \<Rightarrow> bool" where
  "square n m \<longleftrightarrow> length m = n \<and> (\<forall>r \<in> set m. length r = n)"

section \<open>Objects for the examples\<close>

text \<open>A \<open>Metrics_Multiclass\<close> object as \<open>__init__\<close> leaves it: the attributes given, the
  frames created, nothing accumulated yet.\<close>

definition new_multiclass ::
  "sample list \<Rightarrow> string list \<Rightarrow> rat \<Rightarrow> rat list \<Rightarrow> rat list \<Rightarrow> rat list \<Rightarrow> bool \<Rightarrow> bool
     \<Rightarrow> metrics_multiclass" where
  "new_multiclass ds labels t ts edges ws use_weights per_patch =
     init_frames
       \<lparr>nbr_class = length labels, class_labels = labels, threshold = t, threshold_range = ts,
        bit_depth = ''keep'', in_prob_range = True, bins = edges,
        dataset = ds, weights = ws, weighted = use_weights, get_metrics_per_patch = per_patch,
        header = [], df_dataset = Map.empty, df_report_classes = Map.empty,
        df_report_micro = Map.empty, df_report_macro = Map.empty, cm_macro = [],
        cms_one_class = Map.empty, dict_prob_true = [], dict_prob_pred = [], dict_hist_counts = [],
        dict_bin_sums = [], dict_bin_true = [], dict_bin_total = [], counts_sample_per_class = [],
        vect_classes = [], metrics_by_class = [], metrics_micro = [], cms_classes = [], cm_micro = []\<rparr>"

text \<open>A \<open>Metrics_Binary\<close> object before \<open>get_metrics_by_threshold\<close> runs.\<close>

definition new_binary :: "vec list \<Rightarrow> vec list \<Rightarrow> rat \<Rightarrow> rat list \<Rightarrow> rat list \<Rightarrow> metrics_binary" where
  "new_binary ms ps t ts edges =
     binary_create_data_for_metrics
       \<lparr>nbr_class = 2, class_labels = [''class 1'', ''class 2''], threshold = t, threshold_range = ts,
        bit_depth = ''keep'', in_prob_range = True, bins = edges,
        masks = ms, preds = ps, cms = [], df_thresholds = Map.empty, df_report_metrics = Map.empty,
        hist_counts = [], prob_true = [], prob_pred = []\<rparr>"

section \<open>Basic facts\<close>

lemma then_do_Inr [simp]: "then_do (Inr x) f = f x"
  by (simp add: then_do_def)

lemma then_do_Inl [simp]: "then_do (Inl e) f = Inl e"
  by (simp add: then_do_def)

lemma then_do_eq_Inr: "then_do m f = Inr y \<longleftrightarrow> (\<exists>x. m = Inr x \<and> f x = Inr y)"
  by (cases m) simp_all

section \<open>The quadruple of a class\<close>

lemma obs_loop:
  assumes "distinct ls" and "\<forall>j < length ls. in_bounds cm (n + j)"
  shows "\<exists>d'. for_each (\<lambda>(i, class_i) obs_by_class.
                 then_do (obs_of_class cm i) (\<lambda>ob. Inr (AList.update class_i ob obs_by_class)))
              (enumerate n ls) d = Inr d'
            \<and> (\<forall>j < length ls. obs_of_class cm (n + j) = Inr (the (map_of d' (ls ! j)))
                   \<and> map_of d' (ls ! j) \<noteq> None)
            \<and> (\<forall>c. c \<notin> set ls \<longrightarrow> map_of d' c = map_of d c)"
  using assms
proof (induction ls arbitrary: n d)
  case Nil
  then show ?case by simp
next
  case (Cons a ls)
  from Cons.prems(2) have b0: "in_bounds cm n" by force
  then obtain ob where ob: "obs_of_class cm n = Inr ob"
    by (simp add: obs_of_class_def)
  have "\<forall>j<length ls. in_bounds cm (Suc n + j)"
    using Cons.prems(2) by force
  with Cons.IH [of "Suc n" "AList.update a ob d"] Cons.prems(1)
  obtain d' where d': "for_each (\<lambda>(i, class_i) obs_by_class.
                 then_do (obs_of_class cm i) (\<lambda>ob. Inr (AList.update class_i ob obs_by_class)))
              (enumerate (Suc n) ls) (AList.update a ob d) = Inr d'"
     and r: "\<forall>j < length ls. obs_of_class cm (Suc n + j) = Inr (the (map_of d' (ls ! j)))
               \<and> map_of d' (ls ! j) \<noteq> None"
     and k: "\<forall>c. c \<notin> set ls \<longrightarrow> map_of d' c = map_of (AList.update a ob d) c"
    by auto
  have a: "a \<notin> set ls" using Cons.prems(1) by simp
  have "\<forall>j < length (a # ls). obs_of_class cm (n + j) = Inr (the (map_of d' ((a # ls) ! j)))
          \<and> map_of d' ((a # ls) ! j) \<noteq> None"
  proof (intro allI impI)
    fix j assume "j < length (a # ls)"
    show "obs_of_class cm (n + j) = Inr (the (map_of d' ((a # ls) ! j)))
            \<and> map_of d' ((a # ls) ! j) \<noteq> None"
    proof (cases j)
      case 0
      then show ?thesis using k a ob by (simp add: update_conv)
    next
      case (Suc m)
      then show ?thesis using r \<open>j < length (a # ls)\<close> by simp
    qed
  qed
  moreover have "\<forall>c. c \<notin> set (a # ls) \<longrightarrow> map_of d' c = map_of d c"
    using k by (simp add: update_conv)
  ultimately show ?case using d' ob by simp
qed

text \<open>
  C1. For a confusion matrix of C rows and C columns and distinct class labels,
  \<open>get_obs_by_class_from_cm\<close> returns, and the quadruple it stores for the class of index
  \<open>i\<close> has tp = cm[i, i], fn = the sum of row i minus tp, fp = the sum of column i minus
  tp, tn = the total minus both sums plus tp; the four add up to the total of the matrix.
\<close>

theorem obs_by_class_quadruple:
  assumes "distinct labels"
    and "length cm = length labels"
    and "\<forall>r \<in> set cm. length r = length labels"
    and "i < length labels"
  shows "\<exists>d ob. get_obs_by_class_from_cm labels cm = Inr d
           \<and> map_of d (labels ! i) = Some ob
           \<and> tp ob = cm ! i ! i
           \<and> fn ob = np_sum (row cm i) - tp ob
           \<and> fp ob = np_sum (col cm i) - tp ob
           \<and> tn ob = np_sum2 cm - np_sum (row cm i) - np_sum (col cm i) + tp ob
           \<and> tp ob + fn ob + fp ob + tn ob = np_sum2 cm"
proof -
  have b: "\<forall>j < length labels. in_bounds cm (0 + j)"
    using assms(2,3) by (simp add: in_bounds_def)
  from obs_loop [OF assms(1) b, of "[]"] obtain d where
    d: "get_obs_by_class_from_cm labels cm = Inr d"
    and r: "\<forall>j < length labels. obs_of_class cm (0 + j) = Inr (the (map_of d (labels ! j)))
              \<and> map_of d (labels ! j) \<noteq> None"
    unfolding get_obs_by_class_from_cm_def by blast
  from r assms(4) obtain ob where ob: "map_of d (labels ! i) = Some ob"
    and o: "obs_of_class cm i = Inr ob" by fastforce
  have "in_bounds cm i" using b assms(4) by simp
  with o have e: "ob = class_obs cm i"
    by (simp add: obs_of_class_def)
  show ?thesis using d ob by (simp add: e class_obs_def)
qed

theorem obs_by_class_quadruple_witness:
  "\<exists>d ob. get_obs_by_class_from_cm [''a'', ''b''] [[3, 1], [2, 5]] = Inr d
           \<and> map_of d ''b'' = Some ob
           \<and> tp ob = 5 \<and> fn ob = 2 \<and> fp ob = 1 \<and> tn ob = 3
           \<and> tp ob + fn ob + fp ob + tn ob = np_sum2 [[3, 1], [2, 5]]"
  using obs_by_class_quadruple [of "[''a'', ''b'']" "[[3, 1], [2, 5]]" 1]
  by (fastforce simp add: np_sum_def np_sum2_def row_def col_def)

section \<open>The zero guard of the metrics\<close>

lemma guarded_div_Inr: "guarded_div a b = Inr (if b = 0 then 0 else a / b)"
  by (simp add: guarded_div_def py_div_def)

text \<open>
  C2. For every quadruple \<open>get_metrics_from_obs\<close> returns a table of the eight metrics
  (it never raises), and every metric whose denominator is exactly 0 has the value 0; at
  (0, 0, 0, 0) every metric of the table is 0.
\<close>

theorem metrics_zero_guard:
  "\<exists>m. get_metrics_from_obs n_tp n_fn n_fp n_tn = Inr m
     \<and> map fst m = metrics_names
     \<and> (n_tp + n_fn + n_fp + n_tn = 0 \<longrightarrow> map_of m ''Accuracy'' = Some 0)
     \<and> (n_tp + n_fp = 0 \<longrightarrow> map_of m ''Precision'' = Some 0)
     \<and> (n_tp + n_fn = 0 \<longrightarrow> map_of m ''Recall'' = Some 0)
     \<and> (n_tn + n_fp = 0 \<longrightarrow> map_of m ''Specificity'' = Some 0)
     \<and> (the (map_of m ''Precision'') + the (map_of m ''Recall'') = 0 \<longrightarrow> map_of m ''F1-Score'' = Some 0)
     \<and> (n_tp + n_fn + n_fp = 0 \<longrightarrow> map_of m ''IoU'' = Some 0)
     \<and> (2 * n_tp + n_fn + n_fp = 0 \<longrightarrow> map_of m ''Dice'' = Some 0)
     \<and> (n_fp + n_tn = 0 \<longrightarrow> map_of m ''FPR'' = Some 0)
     \<and> (n_tp = 0 \<and> n_fn = 0 \<and> n_fp = 0 \<and> n_tn = 0
          \<longrightarrow> (\<forall>name \<in> set metrics_names. map_of m name = Some 0))"
  by (simp add: get_metrics_from_obs_def guarded_div_Inr metrics_names_def)

theorem metrics_zero_guard_witness:
  "get_metrics_from_obs 0 0 0 0 =
     Inr [(''Accuracy'', 0), (''Precision'', 0), (''Recall'', 0), (''Specificity'', 0),
          (''F1-Score'', 0), (''IoU'', 0), (''Dice'', 0), (''FPR'', 0)]
   \<and> get_metrics_from_obs 0 2 0 3 \<noteq> Inl ZeroDivisionError"
  using metrics_zero_guard [of 0 0 0 0] metrics_zero_guard [of 0 2 0 3]
  by (auto simp add: get_metrics_from_obs_def guarded_div_Inr)

section \<open>The bit depth of \<open>Statistics\<close>\<close>

lemma depth_dict_pos: "map_of depth_dict tag = Some d \<Longrightarrow> d \<noteq> 0"
  by (auto simp add: depth_dict_def split: if_splits)

lemma norm_loop:
  "d \<noteq> 0 \<Longrightarrow>
   for_each (\<lambda>x acc. then_do (py_div x d) (\<lambda>q. Inr (acc @ [f q]))) b acc
     = Inr (acc @ map (\<lambda>x. f (x / d)) b)"
  by (induction b arbitrary: acc) (simp_all add: py_div_def)

lemma select_bit_depth_key:
  "\<exists>d. map_of depth_dict (fst (select_bit_depth tag)) = Some d"
  by (auto simp add: select_bit_depth_def BIT_DEPTH_def depth_dict_def)

lemma get_bins_norm:
  assumes "get_bins depth n bins_arg = Inr (b, bn)"
  shows "\<exists>d. map_of depth_dict depth = Some d \<and> bn = map (\<lambda>x. np_round (x / d) 3) b"
proof -
  from assms obtain d where d: "map_of depth_dict depth = Some d"
    by (auto simp add: get_bins_def dict_get_def split: option.splits)
  then have "d \<noteq> 0" by (rule depth_dict_pos)
  with assms d show ?thesis
    by (auto simp add: get_bins_def dict_get_def norm_loop then_do_eq_Inr)
qed

lemma grid_loop_no_key_error:
  "for_each (\<lambda>i acc. then_do (py_div (of_nat i) (of_nat n)) (\<lambda>q. Inr (acc @ [np_round (q * m) 3]))) xs acc
     \<noteq> Inl KeyError"
  by (induction xs arbitrary: acc) (auto simp add: py_div_def)

lemma get_bins_no_key_error: "get_bins (fst (select_bit_depth tag)) n b \<noteq> Inl KeyError"
proof -
  obtain d where d: "map_of depth_dict (fst (select_bit_depth tag)) = Some d"
    using select_bit_depth_key by blast
  have nz: "d \<noteq> 0" using d by (rule depth_dict_pos)
  show ?thesis
  proof (cases b)
    case (Some a)
    then show ?thesis using d by (simp add: get_bins_def dict_get_def norm_loop [OF nz])
  next
    case None
    show ?thesis
    proof (cases "for_each (\<lambda>i acc. then_do (py_div (of_nat i) (of_nat n))
                     (\<lambda>q. Inr (acc @ [np_round (q * d) 3]))) [0..<n] []")
      case (Inl e)
      then have "e \<noteq> KeyError" using grid_loop_no_key_error [of n d "[0..<n]" "[]"] by auto
      then show ?thesis using d None Inl by (simp add: get_bins_def dict_get_def)
    next
      case (Inr x)
      then show ?thesis using d None by (simp add: get_bins_def dict_get_def norm_loop [OF nz])
    qed
  qed
qed

text \<open>
  C8. A bit depth tag outside the table does not make the construction fail: the tag is
  replaced by '8 bits' with one warning, and the object is the one that '8 bits' would
  have given (with the warning added), so every later computation uses the divisor 255.
  A tag of the table is kept, and the divisor used for the normalised bins and by
  \<open>to_pixel_input_range\<close> is the value the table gives it: 1, 255, 4095, 16383, 65535.
\<close>

theorem bit_depth_fallback:
  "(tag \<notin> set (map fst depth_dict) \<longrightarrow>
       select_bit_depth tag = (''8 bits'', [bit_depth_warning])
     \<and> Statistics_init ds b n tag bs nw
         = map_sum id (\<lambda>st. st\<lparr>warnings := [bit_depth_warning]\<rparr>) (Statistics_init ds b n ''8 bits'' bs nw))
   \<and> Statistics_init ds b n tag bs nw \<noteq> Inl KeyError
   \<and> (\<forall>st. Statistics_init ds b n tag bs nw = Inr st \<longrightarrow>
         (\<exists>d. map_of depth_dict (statistics.bit_depth st) = Some d
            \<and> statistics.norm_bins st = map (\<lambda>x. np_round (x / d) 3) (statistics.bins st)
            \<and> to_pixel_input_range st v = Inr (v * d)
            \<and> (tag \<notin> set (map fst depth_dict) \<longrightarrow> statistics.bit_depth st = ''8 bits'' \<and> d = 255)
            \<and> (tag \<in> set (map fst depth_dict) \<longrightarrow> statistics.bit_depth st = tag \<and> map_of depth_dict tag = Some d)
            \<and> (tag = ''keep'' \<longrightarrow> d = 1) \<and> (tag = ''8 bits'' \<longrightarrow> d = 255)
            \<and> (tag = ''12 bits'' \<longrightarrow> d = 4095) \<and> (tag = ''14 bits'' \<longrightarrow> d = 16383)
            \<and> (tag = ''16 bits'' \<longrightarrow> d = 65535)))"
proof (intro conjI impI allI)
  assume t: "tag \<notin> set (map fst depth_dict)"
  then show "select_bit_depth tag = (''8 bits'', [bit_depth_warning])"
    by (simp add: select_bit_depth_def BIT_DEPTH_def)
  have k: "''8 bits'' \<in> set (map fst depth_dict)" by (simp add: depth_dict_def)
  show "Statistics_init ds b n tag bs nw
         = map_sum id (\<lambda>st. st\<lparr>warnings := [bit_depth_warning]\<rparr>) (Statistics_init ds b n ''8 bits'' bs nw)"
    using t k
    by (auto simp add: Statistics_init_def select_bit_depth_def BIT_DEPTH_def then_do_def Let_def
          split: sum.splits prod.splits)
next
  have "get_bins (fst (select_bit_depth tag)) n b \<noteq> Inl KeyError"
    by (rule get_bins_no_key_error)
  then show "Statistics_init ds b n tag bs nw \<noteq> Inl KeyError"
    by (auto simp add: Statistics_init_def the_or_type_error_def then_do_def Let_def
          split: sum.splits option.splits prod.splits)
next
  fix st assume s: "Statistics_init ds b n tag bs nw = Inr st"
  obtain depth ws where sd: "select_bit_depth tag = (depth, ws)"
    by (cases "select_bit_depth tag")
  from s sd obtain bb bn where g0: "get_bins depth n b = Inr (bb, bn)"
    and bd0: "statistics.bit_depth st = depth"
    and b1: "statistics.bins st = bb" and b2: "statistics.norm_bins st = bn"
    by (auto simp add: Statistics_init_def then_do_eq_Inr Let_def split: if_splits)
  from g0 bd0 sd have g: "get_bins (fst (select_bit_depth tag)) n b = Inr (bb, bn)"
    and bd: "statistics.bit_depth st = fst (select_bit_depth tag)" by simp_all
  from get_bins_norm [OF g] obtain d where d: "map_of depth_dict (fst (select_bit_depth tag)) = Some d"
    and n: "bn = map (\<lambda>x. np_round (x / d) 3) bb" by blast
  have p: "to_pixel_input_range st v = Inr (v * d)"
    using d bd by (simp add: to_pixel_input_range_def dict_get_def)
  have q: "tag \<notin> set (map fst depth_dict) \<longrightarrow> statistics.bit_depth st = ''8 bits'' \<and> d = 255"
    using d bd by (auto simp add: select_bit_depth_def BIT_DEPTH_def depth_dict_def)
  have r: "tag \<in> set (map fst depth_dict) \<longrightarrow> statistics.bit_depth st = tag \<and> map_of depth_dict tag = Some d"
  proof
    assume "tag \<in> set (map fst depth_dict)"
    then have "fst (select_bit_depth tag) = tag" by (simp add: select_bit_depth_def)
    with d bd show "statistics.bit_depth st = tag \<and> map_of depth_dict tag = Some d" by simp
  qed
  have t: "(tag = ''keep'' \<longrightarrow> d = 1) \<and> (tag = ''8 bits'' \<longrightarrow> d = 255)
            \<and> (tag = ''12 bits'' \<longrightarrow> d = 4095) \<and> (tag = ''14 bits'' \<longrightarrow> d = 16383)
            \<and> (tag = ''16 bits'' \<longrightarrow> d = 65535)"
    using d by (auto simp add: select_bit_depth_def depth_dict_def)
  show "\<exists>d. map_of depth_dict (statistics.bit_depth st) = Some d
            \<and> statistics.norm_bins st = map (\<lambda>x. np_round (x / d) 3) (statistics.bins st)
            \<and> to_pixel_input_range st v = Inr (v * d)
            \<and> (tag \<notin> set (map fst depth_dict) \<longrightarrow> statistics.bit_depth st = ''8 bits'' \<and> d = 255)
            \<and> (tag \<in> set (map fst depth_dict) \<longrightarrow> statistics.bit_depth st = tag \<and> map_of depth_dict tag = Some d)
            \<and> (tag = ''keep'' \<longrightarrow> d = 1) \<and> (tag = ''8 bits'' \<longrightarrow> d = 255)
            \<and> (tag = ''12 bits'' \<longrightarrow> d = 4095) \<and> (tag = ''14 bits'' \<longrightarrow> d = 16383)
            \<and> (tag = ''16 bits'' \<longrightarrow> d = 65535)"
    using d bd b1 b2 n p q r t by auto
qed

theorem bit_depth_fallback_witness:
  "''10 bits'' \<notin> set (map fst depth_dict)
   \<and> Statistics_init \<lparr>image_files = [''a.tif'', ''b.tif''], image_bands = Some [1, 2, 3],
                        mask_bands = Some [1, 2], width = Some 2, height = Some 2\<rparr>
        (Some [0, 51, 255]) 10 ''10 bits'' 1 1
       = Inr \<lparr>nbr_bands = 3, nbr_classes = 2, nbr_pixels_per_patch = 4, nbr_total_pixel = 8,
               bit_depth = ''8 bits'', nbr_bins = 10, bins = [0, 51, 255], norm_bins = [0, 1 / 5, 1],
               batch_size = 1, num_workers = 1, nbr_batches = 2, warnings = [bit_depth_warning]\<rparr>
   \<and> Statistics_init \<lparr>image_files = [''a.tif'', ''b.tif''], image_bands = Some [1, 2, 3],
                        mask_bands = Some [1, 2], width = Some 2, height = Some 2\<rparr>
        (Some [0, 51, 255]) 10 ''8 bits'' 1 1
       = Inr \<lparr>nbr_bands = 3, nbr_classes = 2, nbr_pixels_per_patch = 4, nbr_total_pixel = 8,
               bit_depth = ''8 bits'', nbr_bins = 10, bins = [0, 51, 255], norm_bins = [0, 1 / 5, 1],
               batch_size = 1, num_workers = 1, nbr_batches = 2, warnings = []\<rparr>"
  using bit_depth_fallback [of "''10 bits''"
          "\<lparr>image_files = [''a.tif'', ''b.tif''], image_bands = Some [1, 2, 3],
            mask_bands = Some [1, 2], width = Some 2, height = Some 2\<rparr>"
          "Some [0, 51, 255]" 10 1 1 0]
  by (simp add: Statistics_init_def the_or_type_error_def select_bit_depth_def BIT_DEPTH_def
        depth_dict_def get_bins_def dict_get_def py_div_def np_round_def round_half_even_def)

section \<open>The micro metrics\<close>












lemma dict_get_eq_Inr: "dict_get d k = Inr v \<longleftrightarrow> map_of d k = Some v"
  by (simp add: dict_get_def split: option.splits)






lemma not_isl_Inr: "\<not> isl x \<Longrightarrow> \<exists>y. x = Inr y"
  by (cases x) simp_all



section \<open>The scan of \<open>Metrics_Multiclass\<close>\<close>

lemma only_accumulators_refl [simp]: "only_accumulators s s"
  by (simp add: only_accumulators_def)

lemma only_accumulators_trans:
  "only_accumulators s t \<Longrightarrow> only_accumulators t u \<Longrightarrow> only_accumulators s u"
  by (simp add: only_accumulators_def)

lemma cleared_fields:
  "nbr_class (cleared s) = nbr_class s" "class_labels (cleared s) = class_labels s"
  "threshold (cleared s) = threshold s" "threshold_range (cleared s) = threshold_range s"
  "metrics.bit_depth (cleared s) = metrics.bit_depth s" "in_prob_range (cleared s) = in_prob_range s"
  "metrics.bins (cleared s) = metrics.bins s" "dataset (cleared s) = dataset s"
  "weights (cleared s) = weights s" "weighted (cleared s) = weighted s"
  "get_metrics_per_patch (cleared s) = get_metrics_per_patch s"
  by (simp_all add: cleared_def)

lemma only_accumulators_config:
  assumes "only_accumulators s s'"
  shows "nbr_class s' = nbr_class s" "class_labels s' = class_labels s"
  "threshold s' = threshold s" "threshold_range s' = threshold_range s"
  "metrics.bit_depth s' = metrics.bit_depth s" "in_prob_range s' = in_prob_range s"
  "metrics.bins s' = metrics.bins s" "dataset s' = dataset s"
  "weights s' = weights s" "weighted s' = weighted s"
  "get_metrics_per_patch s' = get_metrics_per_patch s"
  using assms cleared_fields [of s] cleared_fields [of s']
  by (simp_all add: only_accumulators_def)

lemma for_each_only_accumulators:
  assumes "\<And>x s s'. x \<in> set xs \<Longrightarrow> body x s = Inr s' \<Longrightarrow> only_accumulators s s'"
    and "for_each body xs s = Inr s'"
  shows "only_accumulators s s'"
  using assms
proof (induction xs arbitrary: s)
  case Nil
  then show ?case by simp
next
  case (Cons x xs)
  from Cons.prems(2) obtain t where t: "body x s = Inr t" and r: "for_each body xs t = Inr s'"
    by (auto split: sum.splits)
  have "only_accumulators s t" using Cons.prems(1) [of x s t] t by simp
  moreover have "only_accumulators t s'" using Cons.IH [OF _ r] Cons.prems(1) by auto
  ultimately show ?case by (rule only_accumulators_trans)
qed

lemma patch_metrics_only: "patch_metrics idx name cm s = Inr s' \<Longrightarrow> \<exists>df. s' = s\<lparr>df_dataset := df\<rparr>"
  by (auto simp add: patch_metrics_def then_do_eq_Inr Let_def)

lemma calibration_step_only:
  "calibration_step smp ic s = Inr s' \<Longrightarrow>
   \<exists>hc bs bt bn. s' = s\<lparr>dict_hist_counts := hc, dict_bin_sums := bs, dict_bin_true := bt, dict_bin_total := bn\<rparr>"
  by (cases ic) (auto simp add: calibration_step_def then_do_eq_Inr Let_def)

lemma macro_step_only:
  assumes "macro_step ds s = Inr s'"
  shows "\<exists>cm. joint_cm (nbr_class s) (snd ds) = Inr cm \<and> cm_macro s' = mat_add (cm_macro s) cm"
    and "only_accumulators s s'"
    and "counts_sample_per_class s' = counts_sample_per_class s"
    and "cms_one_class s' = cms_one_class s"
    and "dict_hist_counts s' = dict_hist_counts s" and "dict_bin_sums s' = dict_bin_sums s"
    and "dict_bin_true s' = dict_bin_true s" and "dict_bin_total s' = dict_bin_total s"
proof -
  obtain idx smp where ds: "ds = (idx, smp)" by (cases ds)
  from assms ds obtain mm pm cm where b: "binarize_multiclass (pred smp) (mask smp) = Inr (mm, pm)"
    and c: "get_confusion_matrix mm pm (nbr_class s) False = Inr cm"
    and r: "(if get_metrics_per_patch s then patch_metrics idx (name_file smp) cm (s\<lparr>cm_macro := mat_add (cm_macro s) cm\<rparr>)
             else Inr (s\<lparr>cm_macro := mat_add (cm_macro s) cm\<rparr>)) = Inr s'"
    by (auto simp add: macro_step_def then_do_eq_Inr Let_def)
  have j: "joint_cm (nbr_class s) (snd ds) = Inr cm" using b c ds by (simp add: joint_cm_def)
  have "\<exists>df. s' = s\<lparr>cm_macro := mat_add (cm_macro s) cm, df_dataset := df\<rparr>"
  proof (cases "get_metrics_per_patch s")
    case True
    with r patch_metrics_only show ?thesis by fastforce
  next
    case False
    with r have "s' = s\<lparr>cm_macro := mat_add (cm_macro s) cm, df_dataset := df_dataset s\<rparr>" by auto
    then show ?thesis by blast
  qed
  then obtain df where e: "s' = s\<lparr>cm_macro := mat_add (cm_macro s) cm, df_dataset := df\<rparr>" by blast
  show "\<exists>cm. joint_cm (nbr_class s) (snd ds) = Inr cm \<and> cm_macro s' = mat_add (cm_macro s) cm"
    using j e by simp
  show "only_accumulators s s'" using e by (simp add: only_accumulators_def cleared_def)
  show "counts_sample_per_class s' = counts_sample_per_class s"
    and "cms_one_class s' = cms_one_class s"
    and "dict_hist_counts s' = dict_hist_counts s" and "dict_bin_sums s' = dict_bin_sums s"
    and "dict_bin_true s' = dict_bin_true s" and "dict_bin_total s' = dict_bin_total s"
    using e by simp_all
qed


lemma calibration_step_facts:
  assumes "calibration_step smp ic s = Inr s'"
  shows "only_accumulators s s'" and "cm_macro s' = cm_macro s"
    and "counts_sample_per_class s' = counts_sample_per_class s"
    and "cms_one_class s' = cms_one_class s" and "df_dataset s' = df_dataset s"
proof -
  from calibration_step_only [OF assms] obtain hc bs bt bn where
    e: "s' = s\<lparr>dict_hist_counts := hc, dict_bin_sums := bs, dict_bin_true := bt, dict_bin_total := bn\<rparr>"
    by blast
  show "only_accumulators s s'" using e by (simp add: only_accumulators_def cleared_def)
  show "cm_macro s' = cm_macro s" and "counts_sample_per_class s' = counts_sample_per_class s"
    and "cms_one_class s' = cms_one_class s" and "df_dataset s' = df_dataset s"
    using e by simp_all
qed

lemma threshold_step_facts:
  assumes "threshold_step ds (i, c) t s = Inr s'"
  shows "only_accumulators s s'"
    and "\<exists>n v. map_of (counts_sample_per_class s) c = Some n \<and> channel (mask (snd ds)) i = Inr v
           \<and> counts_sample_per_class s' = AList.update c (n + count_nonzero v) (counts_sample_per_class s)"
    and "if t = threshold s \<and> i = 0
         then \<exists>cm. joint_cm (nbr_class s) (snd ds) = Inr cm \<and> cm_macro s' = mat_add (cm_macro s) cm
         else cm_macro s' = cm_macro s"
proof -
  from assms obtain v n new s3 where
    v: "channel (mask (snd ds)) i = Inr v"
    and n: "map_of (counts_sample_per_class s) c = Some n"
    and m: "(if t = threshold s \<and> i = 0
             then macro_step ds (s\<lparr>counts_sample_per_class := AList.update c (n + count_nonzero v) (counts_sample_per_class s),
                                  cms_one_class := frame_set (cms_one_class s) t c new\<rparr>)
             else Inr (s\<lparr>counts_sample_per_class := AList.update c (n + count_nonzero v) (counts_sample_per_class s),
                         cms_one_class := frame_set (cms_one_class s) t c new\<rparr>)) = Inr s3"
    and k: "(if t = threshold s3 then calibration_step (snd ds) (i, c) s3 else Inr s3) = Inr s'"
    by (auto simp add: threshold_step_def then_do_eq_Inr Let_def dict_get_eq_Inr cong: if_cong)
  let ?s2 = "s\<lparr>counts_sample_per_class := AList.update c (n + count_nonzero v) (counts_sample_per_class s),
               cms_one_class := frame_set (cms_one_class s) t c new\<rparr>"
  have o2: "only_accumulators s ?s2" by (simp add: only_accumulators_def cleared_def)
  have o3: "only_accumulators ?s2 s3" and c3: "counts_sample_per_class s3 = counts_sample_per_class ?s2"
    and m3: "if t = threshold s \<and> i = 0
         then \<exists>cm. joint_cm (nbr_class s) (snd ds) = Inr cm \<and> cm_macro s3 = mat_add (cm_macro s) cm
         else cm_macro s3 = cm_macro s"
  proof -
    show "only_accumulators ?s2 s3" using m macro_step_only(2) [of ds ?s2 s3]
      by (auto split: if_splits)
    show "counts_sample_per_class s3 = counts_sample_per_class ?s2"
      using m macro_step_only(3) [of ds ?s2 s3] by (auto split: if_splits)
    show "if t = threshold s \<and> i = 0
         then \<exists>cm. joint_cm (nbr_class s) (snd ds) = Inr cm \<and> cm_macro s3 = mat_add (cm_macro s) cm
         else cm_macro s3 = cm_macro s"
      using m macro_step_only(1) [of ds ?s2 s3] by (auto split: if_splits)
  qed
  have o4: "only_accumulators s3 s'" and c4: "counts_sample_per_class s' = counts_sample_per_class s3"
    and m4: "cm_macro s' = cm_macro s3"
    using k calibration_step_facts [of "snd ds" "(i, c)" s3 s'] by (auto split: if_splits)
  show "only_accumulators s s'"
    using o2 o3 o4 only_accumulators_trans by blast
  show "\<exists>n v. map_of (counts_sample_per_class s) c = Some n \<and> channel (mask (snd ds)) i = Inr v
           \<and> counts_sample_per_class s' = AList.update c (n + count_nonzero v) (counts_sample_per_class s)"
    using n v c3 c4 by simp
  show "if t = threshold s \<and> i = 0
         then \<exists>cm. joint_cm (nbr_class s) (snd ds) = Inr cm \<and> cm_macro s' = mat_add (cm_macro s) cm
         else cm_macro s' = cm_macro s"
    using m3 m4 by simp
qed

lemma update_keys_present:
  "map_of al k = Some x \<Longrightarrow> map fst (AList.update k v al) = map fst al"
  by (induction al) (auto split: if_splits)

lemma thresholds_loop_facts:
  assumes "for_each (threshold_step ds (i, c)) ts s = Inr s'"
  shows "only_accumulators s s'
    \<and> map fst (counts_sample_per_class s') = map fst (counts_sample_per_class s)
    \<and> (\<forall>k. k \<noteq> c \<longrightarrow> map_of (counts_sample_per_class s') k = map_of (counts_sample_per_class s) k)
    \<and> (ts = [] \<longrightarrow> counts_sample_per_class s' = counts_sample_per_class s)
    \<and> (ts \<noteq> [] \<longrightarrow> (\<exists>n v. map_of (counts_sample_per_class s) c = Some n
                           \<and> channel (mask (snd ds)) i = Inr v
                           \<and> map_of (counts_sample_per_class s') c = Some (n + length ts * count_nonzero v)))
    \<and> (if i = 0 \<and> threshold s \<in> set ts
        then \<exists>cm. joint_cm (nbr_class s) (snd ds) = Inr cm
                 \<and> cm_macro s' = ((\<lambda>m. mat_add m cm) ^^ count_list ts (threshold s)) (cm_macro s)
        else cm_macro s' = cm_macro s)"
  using assms
proof (induction ts arbitrary: s)
  case Nil
  then show ?case by simp
next
  case (Cons t ts)
  from Cons.prems obtain s1 where s1: "threshold_step ds (i, c) t s = Inr s1"
    and r: "for_each (threshold_step ds (i, c)) ts s1 = Inr s'"
    by (auto split: sum.splits)
  note f = threshold_step_facts [OF s1]
  note cfg = only_accumulators_config(1,3) [OF f(1)]
  have sw: "((\<lambda>m. mat_add m cm) ^^ k) (mat_add x cm) = mat_add (((\<lambda>m. mat_add m cm) ^^ k) x) cm"
    for k x cm by (induction k) simp_all
  from f(2) obtain n v where n: "map_of (counts_sample_per_class s) c = Some n"
    and v: "channel (mask (snd ds)) i = Inr v"
    and c1: "counts_sample_per_class s1 = AList.update c (n + count_nonzero v) (counts_sample_per_class s)"
    by blast
  note ih = Cons.IH [OF r]
  have o: "only_accumulators s s'" using f(1) ih only_accumulators_trans by blast
  have k1: "map fst (counts_sample_per_class s1) = map fst (counts_sample_per_class s)"
    using c1 n by (simp add: update_keys_present)
  have keys: "map fst (counts_sample_per_class s') = map fst (counts_sample_per_class s)"
    using ih k1 by simp
  have other: "\<forall>k. k \<noteq> c \<longrightarrow> map_of (counts_sample_per_class s') k = map_of (counts_sample_per_class s) k"
    using ih c1 by (simp add: update_conv)
  have m1: "map_of (counts_sample_per_class s1) c = Some (n + count_nonzero v)"
    using c1 by (simp add: update_conv)
  have cnt: "map_of (counts_sample_per_class s') c = Some (n + length (t # ts) * count_nonzero v)"
  proof (cases "ts = []")
    case True
    with ih m1 show ?thesis by simp
  next
    case False
    with ih m1 v show ?thesis by (auto simp add: algebra_simps)
  qed
  have cm: "if i = 0 \<and> threshold s \<in> set (t # ts)
        then \<exists>cm. joint_cm (nbr_class s) (snd ds) = Inr cm
                 \<and> cm_macro s' = ((\<lambda>m. mat_add m cm) ^^ count_list (t # ts) (threshold s)) (cm_macro s)
        else cm_macro s' = cm_macro s"
  proof (cases "i = 0 \<and> t = threshold s")
    case True
    with f(3) obtain cm where j: "joint_cm (nbr_class s) (snd ds) = Inr cm"
      and a: "cm_macro s1 = mat_add (cm_macro s) cm" by auto
    show ?thesis
    proof (cases "threshold s \<in> set ts")
      case True
      with ih \<open>i = 0 \<and> t = threshold s\<close> j a cfg show ?thesis
        by (auto simp add: sw)
    next
      case False
      with ih \<open>i = 0 \<and> t = threshold s\<close> j a cfg show ?thesis
        by (auto simp add: count_list_0_iff)
    qed
  next
    case False
    with f(3) have a: "cm_macro s1 = cm_macro s" by auto
    from False ih a cfg show ?thesis by auto
  qed
  show ?case using o keys other n v cnt cm by auto
qed

lemma class_step_facts:
  assumes "class_step ds (i, c) s = Inr s'"
  shows "only_accumulators s s'"
    and "map fst (counts_sample_per_class s') = map fst (counts_sample_per_class s)"
    and "\<forall>k. k \<noteq> c \<longrightarrow> map_of (counts_sample_per_class s') k = map_of (counts_sample_per_class s) k"
    and "map_of (counts_sample_per_class s') c
           = map_option (\<lambda>m. m + length (threshold_range s) * count_nonzero (mask (snd ds) ! i))
               (map_of (counts_sample_per_class s) c)"
    and "if i = 0 \<and> threshold s \<in> set (threshold_range s)
         then \<exists>cm. joint_cm (nbr_class s) (snd ds) = Inr cm
                 \<and> cm_macro s' = ((\<lambda>m. mat_add m cm) ^^ count_list (threshold_range s) (threshold s)) (cm_macro s)
         else cm_macro s' = cm_macro s"
proof -
  note f = thresholds_loop_facts [OF assms [unfolded class_step_def]]
  show "only_accumulators s s'" using f by simp
  show "map fst (counts_sample_per_class s') = map fst (counts_sample_per_class s)" using f by simp
  show "\<forall>k. k \<noteq> c \<longrightarrow> map_of (counts_sample_per_class s') k = map_of (counts_sample_per_class s) k"
    using f by simp
  show "map_of (counts_sample_per_class s') c
           = map_option (\<lambda>m. m + length (threshold_range s) * count_nonzero (mask (snd ds) ! i))
               (map_of (counts_sample_per_class s) c)"
  proof (cases "threshold_range s = []")
    case True
    with f show ?thesis by (simp add: option.map_ident)
  next
    case False
    with f obtain n v where "map_of (counts_sample_per_class s) c = Some n"
      and "channel (mask (snd ds)) i = Inr v"
      and "map_of (counts_sample_per_class s') c = Some (n + length (threshold_range s) * count_nonzero v)"
      by blast
    then show ?thesis by (auto simp add: channel_def split: if_splits)
  qed
  show "if i = 0 \<and> threshold s \<in> set (threshold_range s)
         then \<exists>cm. joint_cm (nbr_class s) (snd ds) = Inr cm
                 \<and> cm_macro s' = ((\<lambda>m. mat_add m cm) ^^ count_list (threshold_range s) (threshold s)) (cm_macro s)
         else cm_macro s' = cm_macro s"
    using f by simp
qed








lemma select_nth:
  "length m = length a \<Longrightarrow>
   map snd (filter fst (zip m a)) = map (\<lambda>j. a ! j) (filter (\<lambda>j. m ! j) [0..<length a])"
proof (induction m a rule: list_induct2)
  case Nil
  then show ?case by simp
next
  case (Cons x xs y ys)
  have u: "[0..<length (y # ys)] = 0 # map Suc [0..<length ys]"
    by (simp add: upt_conv_Cons map_Suc_upt del: upt_Suc)
  show ?case unfolding u using Cons by (simp add: filter_map o_def)
qed

lemma calibration_curve_eq:
  assumes "calibration_curve mass tot = Inr out"
  shows "length mass = length tot"
    and "out = map (\<lambda>j. Num (mass ! j / tot ! j)) (filter (\<lambda>j. tot ! j \<noteq> 0) [0..<length tot])"
proof -
  from assms show l: "length mass = length tot"
    by (auto simp add: calibration_curve_def mask_select_def then_do_eq_Inr Let_def split: if_splits)
  let ?J = "filter (\<lambda>j. tot ! j \<noteq> 0) [0..<length tot]"
  have fj: "filter (\<lambda>j. map (\<lambda>x. x \<noteq> 0) tot ! j) [0..<length tot] = ?J"
    by (rule filter_cong) simp_all
  have s1: "map snd (filter fst (zip (map (\<lambda>x. x \<noteq> 0) tot) mass)) = map (\<lambda>j. mass ! j) ?J"
    using select_nth [of "map (\<lambda>x. x \<noteq> 0) tot" mass] l fj by simp
  have s2: "map snd (filter fst (zip (map (\<lambda>x. x \<noteq> 0) tot) tot)) = map (\<lambda>j. tot ! j) ?J"
    using select_nth [of "map (\<lambda>x. x \<noteq> 0) tot" tot] fj by simp
  from assms l have "out = np_divide (map (\<lambda>j. mass ! j) ?J) (map (\<lambda>j. tot ! j) ?J)"
    by (simp add: calibration_curve_def mask_select_def Let_def s1 s2)
  also have "\<dots> = map (\<lambda>j. if tot ! j = 0 then NaN else Num (mass ! j / tot ! j)) ?J"
    by (simp add: np_divide_def map2_map_map)
  also have "\<dots> = map (\<lambda>j. Num (mass ! j / tot ! j)) ?J"
    by (rule map_cong) simp_all
  finally show "out = map (\<lambda>j. Num (mass ! j / tot ! j)) ?J" .
qed

lemma finish_class_facts:
  assumes "finish_class c s = Inr s'"
  shows "only_accumulators s s'" and "cm_macro s' = cm_macro s"
    and "counts_sample_per_class s' = counts_sample_per_class s"
    and "dict_bin_total s' = dict_bin_total s" and "dict_bin_true s' = dict_bin_true s"
    and "dict_bin_sums s' = dict_bin_sums s" and "df_dataset s' = df_dataset s"
    and "dict_hist_counts s' = dict_hist_counts s" and "cms_one_class s' = cms_one_class s"
    and "\<exists>tot tm pm pt pp. map_of (dict_bin_total s) c = Some tot
           \<and> map_of (dict_bin_true s) c = Some tm \<and> map_of (dict_bin_sums s) c = Some pm
           \<and> calibration_curve tm tot = Inr pt \<and> calibration_curve pm tot = Inr pp
           \<and> dict_prob_true s' = AList.update c pt (dict_prob_true s)
           \<and> dict_prob_pred s' = AList.update c pp (dict_prob_pred s)"
proof -
  from assms obtain tot tm pm pt pp v where
    a: "map_of (dict_bin_total s) c = Some tot" "map_of (dict_bin_true s) c = Some tm"
       "map_of (dict_bin_sums s) c = Some pm" "calibration_curve tm tot = Inr pt"
       "calibration_curve pm tot = Inr pp"
    and e: "s' = s\<lparr>dict_prob_true := AList.update c pt (dict_prob_true s),
                    dict_prob_pred := AList.update c pp (dict_prob_pred s),
                    vect_classes := v\<rparr>"
    by (auto simp add: finish_class_def then_do_eq_Inr Let_def dict_get_eq_Inr)
  show "only_accumulators s s'" using e by (simp add: only_accumulators_def cleared_def)
  show "cm_macro s' = cm_macro s" "counts_sample_per_class s' = counts_sample_per_class s"
    "dict_bin_total s' = dict_bin_total s" "dict_bin_true s' = dict_bin_true s"
    "dict_bin_sums s' = dict_bin_sums s" "df_dataset s' = df_dataset s"
    "dict_hist_counts s' = dict_hist_counts s" "cms_one_class s' = cms_one_class s"
    using e by simp_all
  show "\<exists>tot tm pm pt pp. map_of (dict_bin_total s) c = Some tot
           \<and> map_of (dict_bin_true s) c = Some tm \<and> map_of (dict_bin_sums s) c = Some pm
           \<and> calibration_curve tm tot = Inr pt \<and> calibration_curve pm tot = Inr pp
           \<and> dict_prob_true s' = AList.update c pt (dict_prob_true s)
           \<and> dict_prob_pred s' = AList.update c pp (dict_prob_pred s)"
    using a e by simp
qed

lemma finish_loop_facts:
  assumes "for_each finish_class ls s = Inr s'"
  shows "only_accumulators s s' \<and> cm_macro s' = cm_macro s
    \<and> counts_sample_per_class s' = counts_sample_per_class s
    \<and> dict_bin_total s' = dict_bin_total s \<and> dict_bin_true s' = dict_bin_true s
    \<and> dict_bin_sums s' = dict_bin_sums s \<and> df_dataset s' = df_dataset s
    \<and> dict_hist_counts s' = dict_hist_counts s \<and> cms_one_class s' = cms_one_class s
    \<and> (\<forall>c. c \<notin> set ls \<longrightarrow> map_of (dict_prob_true s') c = map_of (dict_prob_true s) c
                          \<and> map_of (dict_prob_pred s') c = map_of (dict_prob_pred s) c)
    \<and> (\<forall>c \<in> set ls. \<exists>tot tm pm pt pp. map_of (dict_bin_total s) c = Some tot
           \<and> map_of (dict_bin_true s) c = Some tm \<and> map_of (dict_bin_sums s) c = Some pm
           \<and> calibration_curve tm tot = Inr pt \<and> calibration_curve pm tot = Inr pp
           \<and> map_of (dict_prob_true s') c = Some pt \<and> map_of (dict_prob_pred s') c = Some pp)"
  using assms
proof (induction ls arbitrary: s)
  case Nil
  then show ?case by simp
next
  case (Cons a ls)
  from Cons.prems obtain s1 where s1: "finish_class a s = Inr s1"
    and r: "for_each finish_class ls s1 = Inr s'"
    by (auto split: sum.splits)
  note f = finish_class_facts [OF s1]
  note ih = Cons.IH [OF r]
  from f(10) obtain tot tm pm pt pp where a: "map_of (dict_bin_total s) a = Some tot"
    "map_of (dict_bin_true s) a = Some tm" "map_of (dict_bin_sums s) a = Some pm"
    "calibration_curve tm tot = Inr pt" "calibration_curve pm tot = Inr pp"
    and u: "dict_prob_true s1 = AList.update a pt (dict_prob_true s)"
       "dict_prob_pred s1 = AList.update a pp (dict_prob_pred s)" by blast
  have o: "only_accumulators s s'" using f(1) ih only_accumulators_trans by blast
  have other: "\<forall>c. c \<notin> set (a # ls) \<longrightarrow> map_of (dict_prob_true s') c = map_of (dict_prob_true s) c
                          \<and> map_of (dict_prob_pred s') c = map_of (dict_prob_pred s) c"
    using ih u by (simp add: update_conv)
  have curve: "\<forall>c \<in> set (a # ls). \<exists>tot tm pm pt pp. map_of (dict_bin_total s) c = Some tot
           \<and> map_of (dict_bin_true s) c = Some tm \<and> map_of (dict_bin_sums s) c = Some pm
           \<and> calibration_curve tm tot = Inr pt \<and> calibration_curve pm tot = Inr pp
           \<and> map_of (dict_prob_true s') c = Some pt \<and> map_of (dict_prob_pred s') c = Some pp"
  proof
    fix c assume c: "c \<in> set (a # ls)"
    show "\<exists>tot tm pm pt pp. map_of (dict_bin_total s) c = Some tot
           \<and> map_of (dict_bin_true s) c = Some tm \<and> map_of (dict_bin_sums s) c = Some pm
           \<and> calibration_curve tm tot = Inr pt \<and> calibration_curve pm tot = Inr pp
           \<and> map_of (dict_prob_true s') c = Some pt \<and> map_of (dict_prob_pred s') c = Some pp"
    proof (cases "c \<in> set ls")
      case True
      with ih f(4,5,6) show ?thesis by simp
    next
      case False
      with c have ca: "c = a" by simp
      from False ih have "map_of (dict_prob_true s') c = map_of (dict_prob_true s1) c"
        "map_of (dict_prob_pred s') c = map_of (dict_prob_pred s1) c" by simp_all
      with u ca a show ?thesis by (simp add: update_conv)
    qed
  qed
  show ?case using o f(2-9) ih other curve by simp
qed

lemma scan_finish_facts:
  assumes "scan_finish s = Inr s'"
  shows "only_accumulators s s'" and "cm_macro s' = cm_macro s"
    and "counts_sample_per_class s' = counts_sample_per_class s"
    and "dict_bin_total s' = dict_bin_total s" and "dict_bin_true s' = dict_bin_true s"
    and "dict_bin_sums s' = dict_bin_sums s" and "df_dataset s' = df_dataset s"
    and "\<forall>c \<in> set (class_labels s). \<exists>tot tm pm pt pp. map_of (dict_bin_total s) c = Some tot
           \<and> map_of (dict_bin_true s) c = Some tm \<and> map_of (dict_bin_sums s) c = Some pm
           \<and> calibration_curve tm tot = Inr pt \<and> calibration_curve pm tot = Inr pp
           \<and> map_of (dict_prob_true s') c = Some pt \<and> map_of (dict_prob_pred s') c = Some pp"
proof -
  from assms obtain df where
    l: "for_each finish_class (class_labels s) (s\<lparr>cms_one_class := df, vect_classes := []\<rparr>) = Inr s'"
    by (auto simp add: scan_finish_def then_do_eq_Inr)
  note f = finish_loop_facts [OF l]
  have o: "only_accumulators s (s\<lparr>cms_one_class := df, vect_classes := []\<rparr>)"
    by (simp add: only_accumulators_def cleared_def)
  show "only_accumulators s s'" using o f only_accumulators_trans by blast
  show "cm_macro s' = cm_macro s" "counts_sample_per_class s' = counts_sample_per_class s"
    "dict_bin_total s' = dict_bin_total s" "dict_bin_true s' = dict_bin_true s"
    "dict_bin_sums s' = dict_bin_sums s" "df_dataset s' = df_dataset s"
    using f by simp_all
  show "\<forall>c \<in> set (class_labels s). \<exists>tot tm pm pt pp. map_of (dict_bin_total s) c = Some tot
           \<and> map_of (dict_bin_true s) c = Some tm \<and> map_of (dict_bin_sums s) c = Some pm
           \<and> calibration_curve tm tot = Inr pt \<and> calibration_curve pm tot = Inr pp
           \<and> map_of (dict_prob_true s') c = Some pt \<and> map_of (dict_prob_pred s') c = Some pp"
    using f by simp
qed

lemma scan_init_facts:
  assumes "scan_init s = Inr s0"
  shows "only_accumulators s s0" and "cm_macro s0 = zeros2 (nbr_class s) (nbr_class s)"
    and "counts_sample_per_class s0 = dict_from_keys (class_labels s) 0"
    and "df_dataset s0 = df_dataset s"
  using assms
  by (auto simp add: scan_init_def only_accumulators_def cleared_def split: if_splits)

lemma scan_dataset_parts:
  assumes "scan_dataset s = Inr s'"
  obtains s0 s1 where "scan_init s = Inr s0" and "scan_loop s0 = Inr s1" and "scan_finish s1 = Inr s'"
  using assms by (auto simp add: scan_dataset_def then_do_eq_Inr)

lemma classes_loop_cm:
  assumes "for_each (class_step ds) (enumerate n ls) s = Inr s'"
  shows "only_accumulators s s'
    \<and> (if n = 0 \<and> ls \<noteq> [] \<and> threshold s \<in> set (threshold_range s)
        then \<exists>cm. joint_cm (nbr_class s) (snd ds) = Inr cm
                 \<and> cm_macro s' = ((\<lambda>m. mat_add m cm) ^^ count_list (threshold_range s) (threshold s)) (cm_macro s)
        else cm_macro s' = cm_macro s)"
  using assms
proof (induction ls arbitrary: n s)
  case Nil
  then show ?case by simp
next
  case (Cons a ls)
  from Cons.prems(1) obtain s1 where s1: "class_step ds (n, a) s = Inr s1"
    and r: "for_each (class_step ds) (enumerate (Suc n) ls) s1 = Inr s'"
    by (auto split: sum.splits)
  note f = class_step_facts [OF s1]
  note cfg = only_accumulators_config(1,3,4) [OF f(1)]
  note ih = Cons.IH [OF r]
  have o: "only_accumulators s s'" using f(1) ih only_accumulators_trans by blast
  have cm: "if n = 0 \<and> a # ls \<noteq> [] \<and> threshold s \<in> set (threshold_range s)
        then \<exists>cm. joint_cm (nbr_class s) (snd ds) = Inr cm
                 \<and> cm_macro s' = ((\<lambda>m. mat_add m cm) ^^ count_list (threshold_range s) (threshold s)) (cm_macro s)
        else cm_macro s' = cm_macro s"
    using ih f(5) by simp
  show ?case using o cm by simp
qed

lemma samples_loop_cm:
  assumes "for_each sample_step (enumerate k ds) s = Inr s'"
    and "class_labels s \<noteq> []" and "count_list (threshold_range s) (threshold s) = 1"
  shows "only_accumulators s s'
    \<and> (\<exists>js. map (joint_cm (nbr_class s)) ds = map Inr js \<and> cm_macro s' = foldl mat_add (cm_macro s) js)"
  using assms
proof (induction ds arbitrary: k s)
  case Nil
  then show ?case by simp
next
  case (Cons smp ds)
  from Cons.prems(1) obtain s1 where s1: "sample_step (k, smp) s = Inr s1"
    and r: "for_each sample_step (enumerate (Suc k) ds) s1 = Inr s'"
    by (auto split: sum.splits)
  note f = classes_loop_cm [OF s1 [unfolded sample_step_def]]
  note cfg = only_accumulators_config(1,2,3,4) [OF conjunct1 [OF f]]
  have mem: "threshold s \<in> set (threshold_range s)"
    using Cons.prems(3) by (metis count_list_0_iff zero_neq_one)
  with f Cons.prems(2,3) obtain cm where j: "joint_cm (nbr_class s) smp = Inr cm"
    and a: "cm_macro s1 = mat_add (cm_macro s) cm" by auto
  have p2: "class_labels s1 \<noteq> []" and p3: "count_list (threshold_range s1) (threshold s1) = 1"
    using cfg Cons.prems(2,3) by simp_all
  note ih = Cons.IH [OF r p2 p3]
  from ih cfg obtain js where js: "map (joint_cm (nbr_class s)) ds = map Inr js"
    and b: "cm_macro s' = foldl mat_add (cm_macro s1) js" by auto
  have "map (joint_cm (nbr_class s)) (smp # ds) = map Inr (cm # js)" using j js by simp
  moreover have "cm_macro s' = foldl mat_add (cm_macro s) (cm # js)" using a b by simp
  moreover have "only_accumulators s s'" using f ih only_accumulators_trans by blast
  ultimately show ?case by blast
qed

lemma mat_add_square:
  assumes "square n a" and "square n b"
  shows "square n (mat_add a b)"
    and "r < n \<Longrightarrow> c < n \<Longrightarrow> mat_add a b ! r ! c = a ! r ! c + b ! r ! c"
proof -
  show "square n (mat_add a b)"
    using assms
    by (auto simp add: square_def mat_add_def vec_add_def set_zip)
  assume "r < n" "c < n"
  then show "mat_add a b ! r ! c = a ! r ! c + b ! r ! c"
    using assms by (simp add: square_def mat_add_def vec_add_def)
qed

lemma foldl_mat_add_nth:
  assumes "square n z" and "\<forall>j \<in> set js. square n j" and "r < n" and "c < n"
  shows "square n (foldl mat_add z js)
    \<and> foldl mat_add z js ! r ! c = z ! r ! c + sum_list (map (\<lambda>j. j ! r ! c) js)"
  using assms
proof (induction js arbitrary: z)
  case Nil
  then show ?case by simp
next
  case (Cons j js)
  have sq: "square n (mat_add z j)" using Cons.prems mat_add_square(1) by simp
  have e: "mat_add z j ! r ! c = z ! r ! c + j ! r ! c"
    using Cons.prems mat_add_square(2) by simp
  from Cons.IH [OF sq] Cons.prems e show ?case by (simp add: add.assoc)
qed

lemma zeros2_square: "square n (zeros2 n n)" and zeros2_nth: "r < n \<Longrightarrow> c < n \<Longrightarrow> zeros2 n n ! r ! c = 0"
  by (simp_all add: square_def zeros2_def zeros_def)

lemma joint_cm_square: "joint_cm n smp = Inr j \<Longrightarrow> square n j"
  by (auto simp add: joint_cm_def get_confusion_matrix_def then_do_eq_Inr square_def Let_def split: if_splits)

text \<open>
  C6. When the operating threshold occurs exactly once in the threshold range (and there
  is at least one class), a scan that completes has added the joint confusion matrix of
  every sample into the macro matrix exactly once: the macro matrix is the sum, from the
  zero matrix, of the joint matrices of the samples, entry by entry.
\<close>

theorem macro_matrix_sum:
  assumes "scan_dataset self = Inr self'"
    and "count_list (threshold_range self) (threshold self) = 1"
    and "class_labels self \<noteq> []"
  shows "\<exists>js. map (joint_cm (nbr_class self)) (dataset self) = map Inr js
           \<and> cm_macro self' = foldl mat_add (zeros2 (nbr_class self) (nbr_class self)) js
           \<and> (\<forall>r < nbr_class self. \<forall>c < nbr_class self.
                 cm_macro self' ! r ! c = sum_list (map (\<lambda>j. j ! r ! c) js))"
proof -
  from assms(1) obtain s0 s1 where i: "scan_init self = Inr s0" and l: "scan_loop s0 = Inr s1"
    and f: "scan_finish s1 = Inr self'" by (rule scan_dataset_parts)
  note fi = scan_init_facts [OF i]
  note cfg = only_accumulators_config(1,2,3,4,8) [OF fi(1)]
  have p2: "class_labels s0 \<noteq> []" and p3: "count_list (threshold_range s0) (threshold s0) = 1"
    using cfg assms(2,3) by simp_all
  from samples_loop_cm [OF l [unfolded scan_loop_def] p2 p3] cfg fi(2)
  obtain js where js: "map (joint_cm (nbr_class self)) (dataset self) = map Inr js"
    and c: "cm_macro s1 = foldl mat_add (zeros2 (nbr_class self) (nbr_class self)) js" by auto
  have e: "cm_macro self' = foldl mat_add (zeros2 (nbr_class self) (nbr_class self)) js"
    using scan_finish_facts(2) [OF f] c by simp
  have sq: "\<forall>j \<in> set js. square (nbr_class self) j"
  proof
    fix j assume "j \<in> set js"
    then have "Inr j \<in> set (map (joint_cm (nbr_class self)) (dataset self))" using js by simp
    then obtain smp where "joint_cm (nbr_class self) smp = Inr j" by auto
    then show "square (nbr_class self) j" by (rule joint_cm_square)
  qed
  have "\<forall>r < nbr_class self. \<forall>c < nbr_class self.
                 cm_macro self' ! r ! c = sum_list (map (\<lambda>j. j ! r ! c) js)"
    using foldl_mat_add_nth [OF zeros2_square sq] e by (simp add: zeros2_nth)
  with js e show ?thesis by blast
qed


theorem macro_matrix_sum_witness:
  "count_list [1 / 4, 1 / 2] (1 / 2 :: rat) = 1
   \<and> (\<exists>self'. scan_dataset
          (new_multiclass [\<lparr>mask = [[1, 0], [0, 1]], pred = [[4 / 5, 3 / 10], [1 / 5, 7 / 10]], name_file = ''p0''\<rparr>,
                           \<lparr>mask = [[1, 1], [0, 0]], pred = [[2 / 5, 3 / 5], [3 / 5, 2 / 5]], name_file = ''p1''\<rparr>]
             [''a'', ''b''] (1 / 2) [1 / 4, 1 / 2] [0, 1 / 2, 1] [1, 1] False False) = Inr self'
        \<and> cm_macro self' = [[2, 1], [0, 1]])"
proof -
  let ?s = "new_multiclass [\<lparr>mask = [[1, 0], [0, 1]], pred = [[4 / 5, 3 / 10], [1 / 5, 7 / 10]], name_file = ''p0''\<rparr>,
                           \<lparr>mask = [[1, 1], [0, 0]], pred = [[2 / 5, 3 / 5], [3 / 5, 2 / 5]], name_file = ''p1''\<rparr>]
             [''a'', ''b''] (1 / 2) [1 / 4, 1 / 2] [0, 1 / 2, 1] [1, 1] False False"
  have "\<not> isl (scan_dataset ?s)" by code_simp
  then obtain self' where r: "scan_dataset ?s = Inr self'" using not_isl_Inr by blast
  have h2: "count_list (threshold_range ?s) (threshold ?s) = 1"
    and h3: "class_labels ?s \<noteq> []"
    and n: "nbr_class ?s = 2"
    and d: "dataset ?s = [\<lparr>mask = [[1, 0], [0, 1]], pred = [[4 / 5, 3 / 10], [1 / 5, 7 / 10]], name_file = ''p0''\<rparr>,
                           \<lparr>mask = [[1, 1], [0, 0]], pred = [[2 / 5, 3 / 5], [3 / 5, 2 / 5]], name_file = ''p1''\<rparr>]"
    by (simp_all add: new_multiclass_def init_frames_def create_data_for_metrics_def)
  from macro_matrix_sum [OF r h2 h3] obtain js where
    js: "map (joint_cm (nbr_class ?s)) (dataset ?s) = map Inr js"
    and c: "cm_macro self' = foldl mat_add (zeros2 (nbr_class ?s) (nbr_class ?s)) js" by blast
  have j: "map (joint_cm 2) [\<lparr>mask = [[1, 0], [0, 1]], pred = [[4 / 5, 3 / 10], [1 / 5, 7 / 10]], name_file = ''p0''\<rparr>,
                           \<lparr>mask = [[1, 1], [0, 0]], pred = [[2 / 5, 3 / 5], [3 / 5, 2 / 5]], name_file = ''p1''\<rparr>]
           = [Inr [[1, 0], [0, 1]], Inr [[1, 1], [0, 0]]]"
    by code_simp
  from js j have "map Inr js = [Inr [[1, 0], [0, 1]], Inr [[1, 1], [0, 0 :: rat]] :: error + matrix]"
    unfolding n d by simp
  then have "js = [[[1, 0], [0, 1]], [[1, 1], [0, 0]]]" by auto
  with c have "cm_macro self' = [[2, 1], [0, 1]]"
    unfolding n by (simp add: zeros2_def zeros_def mat_add_def vec_add_def numeral_2_eq_2)
  with r show ?thesis by auto
qed

section \<open>The calibration accumulators of \<open>Metrics_Binary\<close>\<close>










lemma binary_finish_facts:
  assumes "binary_finish (s, (hc, bs, bt, bn)) = Inr s'"
  shows "\<exists>pt pp. calibration_curve bt bn = Inr pt \<and> calibration_curve bs bn = Inr pp
           \<and> prob_true s' = pt \<and> prob_pred s' = pp"
proof -
  let ?h = "np_divide hc (replicate (length hc) (np_sum hc))"
  from assms obtain pt pp where pt: "calibration_curve bt bn = Inr pt"
    and pp: "calibration_curve bs bn = Inr pp"
    and r: "(case filter (\<lambda>k. df_thresholds s (k, ''threshold'') = Some (Num (threshold s)))
                         [0..<length (threshold_range s)] of
               [k] \<Rightarrow> then_do (for_each (\<lambda>c acc. then_do (frame_get (df_thresholds s) k c)
                                                     (\<lambda>v. Inr (acc @ [v])))
                                         (butlast metrics_names) []) (\<lambda>vals.
                      then_do (set_row (df_report_metrics s) ''Values'' (butlast metrics_names) vals)
                        (\<lambda>rep. Inr (s\<lparr>hist_counts := ?h, prob_true := pt, prob_pred := pp,
                                        df_report_metrics := rep\<rparr>)))
             | _ \<Rightarrow> Inl ValueError) = Inr s'"
    by (auto simp add: binary_finish_def then_do_eq_Inr Let_def cong: list.case_cong)
  from r obtain rep where "s' = s\<lparr>hist_counts := ?h, prob_true := pt, prob_pred := pp,
                                        df_report_metrics := rep\<rparr>"
    by (auto simp add: then_do_eq_Inr split: list.splits)
  then have "prob_true s' = pt" "prob_pred s' = pp" by simp_all
  with pt pp show ?thesis by blast
qed

lemma get_metrics_by_threshold_curve:
  assumes "get_metrics_by_threshold b = Inr b'"
  shows "\<exists>b1 hc bs bt bn. threshold_loop b = Inr (b1, (hc, bs, bt, bn))
           \<and> length bt = length bn \<and> length bs = length bn
           \<and> prob_true b' = map (\<lambda>j. Num (bt ! j / bn ! j)) (filter (\<lambda>j. bn ! j \<noteq> 0) [0..<length bn])
           \<and> prob_pred b' = map (\<lambda>j. Num (bs ! j / bn ! j)) (filter (\<lambda>j. bn ! j \<noteq> 0) [0..<length bn])"
proof -
  from assms obtain b1 hc bs bt bn where l: "threshold_loop b = Inr (b1, (hc, bs, bt, bn))"
    and f: "binary_finish (b1, (hc, bs, bt, bn)) = Inr b'"
    by (auto simp add: get_metrics_by_threshold_def then_do_eq_Inr)
  from binary_finish_facts [OF f] obtain pt pp where
    c: "calibration_curve bt bn = Inr pt" "calibration_curve bs bn = Inr pp"
    and p: "prob_true b' = pt" "prob_pred b' = pp" by blast
  note c1 = calibration_curve_eq [OF c(1)]
  note c2 = calibration_curve_eq [OF c(2)]
  show ?thesis using l p c1 c2 by simp
qed

section \<open>The calibration curves\<close>

text \<open>
  C3. After a scan that completes, the calibration curve of every class lists exactly the
  bins whose count is not zero, in order, with prob_true = (sum of true labels in the bin)
  / count and prob_pred = (sum of predictions in the bin) / count; every entry is a number,
  and a bin of count zero has no entry. The same holds for the curve that
  \<open>Metrics_Binary.get_metrics_by_threshold\<close> leaves.
\<close>

theorem calibration_curve_bins:
  "(scan_dataset self = Inr self' \<longrightarrow>
      (\<forall>c \<in> set (class_labels self). \<exists>tot tm pm.
          map_of (dict_bin_total self') c = Some tot
        \<and> map_of (dict_bin_true self') c = Some tm
        \<and> map_of (dict_bin_sums self') c = Some pm
        \<and> length tm = length tot \<and> length pm = length tot
        \<and> map_of (dict_prob_true self') c
            = Some (map (\<lambda>j. Num (tm ! j / tot ! j)) (filter (\<lambda>j. tot ! j \<noteq> 0) [0..<length tot]))
        \<and> map_of (dict_prob_pred self') c
            = Some (map (\<lambda>j. Num (pm ! j / tot ! j)) (filter (\<lambda>j. tot ! j \<noteq> 0) [0..<length tot]))))
   \<and> (get_metrics_by_threshold b = Inr b' \<longrightarrow>
      (\<exists>b1 hc bs bt bn. threshold_loop b = Inr (b1, (hc, bs, bt, bn))
        \<and> length bt = length bn \<and> length bs = length bn
        \<and> prob_true b' = map (\<lambda>j. Num (bt ! j / bn ! j)) (filter (\<lambda>j. bn ! j \<noteq> 0) [0..<length bn])
        \<and> prob_pred b' = map (\<lambda>j. Num (bs ! j / bn ! j)) (filter (\<lambda>j. bn ! j \<noteq> 0) [0..<length bn])))"
proof (intro conjI impI ballI)
  fix c assume r: "scan_dataset self = Inr self'" and c: "c \<in> set (class_labels self)"
  from r obtain s0 s1 where i: "scan_init self = Inr s0" and l: "scan_loop s0 = Inr s1"
    and f: "scan_finish s1 = Inr self'" by (rule scan_dataset_parts)
  have o: "only_accumulators self s1"
    using scan_init_facts(1) [OF i] for_each_only_accumulators [OF _ l [unfolded scan_loop_def]]
      classes_loop_cm only_accumulators_trans
    by (metis sample_step_def)
  have "class_labels s1 = class_labels self" using only_accumulators_config(2) [OF o] .
  with c have "c \<in> set (class_labels s1)" by simp
  with scan_finish_facts(8) [OF f] obtain tot tm pm pt pp where
    a: "map_of (dict_bin_total s1) c = Some tot" "map_of (dict_bin_true s1) c = Some tm"
       "map_of (dict_bin_sums s1) c = Some pm"
    and cu: "calibration_curve tm tot = Inr pt" "calibration_curve pm tot = Inr pp"
    and p: "map_of (dict_prob_true self') c = Some pt" "map_of (dict_prob_pred self') c = Some pp"
    by blast
  note c1 = calibration_curve_eq [OF cu(1)]
  note c2 = calibration_curve_eq [OF cu(2)]
  show "\<exists>tot tm pm.
          map_of (dict_bin_total self') c = Some tot
        \<and> map_of (dict_bin_true self') c = Some tm
        \<and> map_of (dict_bin_sums self') c = Some pm
        \<and> length tm = length tot \<and> length pm = length tot
        \<and> map_of (dict_prob_true self') c
            = Some (map (\<lambda>j. Num (tm ! j / tot ! j)) (filter (\<lambda>j. tot ! j \<noteq> 0) [0..<length tot]))
        \<and> map_of (dict_prob_pred self') c
            = Some (map (\<lambda>j. Num (pm ! j / tot ! j)) (filter (\<lambda>j. tot ! j \<noteq> 0) [0..<length tot]))"
    using a p c1 c2 scan_finish_facts(4,5,6) [OF f] by simp
next
  assume "get_metrics_by_threshold b = Inr b'"
  then show "\<exists>b1 hc bs bt bn. threshold_loop b = Inr (b1, (hc, bs, bt, bn))
        \<and> length bt = length bn \<and> length bs = length bn
        \<and> prob_true b' = map (\<lambda>j. Num (bt ! j / bn ! j)) (filter (\<lambda>j. bn ! j \<noteq> 0) [0..<length bn])
        \<and> prob_pred b' = map (\<lambda>j. Num (bs ! j / bn ! j)) (filter (\<lambda>j. bn ! j \<noteq> 0) [0..<length bn])"
    by (rule get_metrics_by_threshold_curve)
qed

theorem calibration_curve_bins_witness:
  "(\<exists>self'. scan_dataset
        (new_multiclass [\<lparr>mask = [[1, 0], [0, 1]], pred = [[4 / 5, 3 / 10], [1 / 5, 7 / 10]], name_file = ''p0''\<rparr>,
                         \<lparr>mask = [[1, 1], [0, 0]], pred = [[2 / 5, 3 / 5], [3 / 5, 2 / 5]], name_file = ''p1''\<rparr>]
           [''a'', ''b''] (1 / 2) [1 / 4, 1 / 2] [0, 1 / 2, 1] [1, 1] False False) = Inr self'
      \<and> map_of (dict_bin_total self') ''a'' = Some [2, 2, 0]
      \<and> map_of (dict_bin_true self') ''a'' = Some [1, 2, 0]
      \<and> map_of (dict_bin_sums self') ''a'' = Some [7 / 10, 7 / 5, 0]
      \<and> map_of (dict_prob_true self') ''a'' = Some [Num (1 / 2), Num 1]
      \<and> map_of (dict_prob_pred self') ''a'' = Some [Num (7 / 20), Num (7 / 10)])
   \<and> (\<exists>b'. get_metrics_by_threshold
               (new_binary [[1, 0], [1, 1]] [[3 / 4, 1 / 4], [1 / 2, 1 / 2]] (1 / 2) [1 / 4, 1 / 2] [0, 1 / 2, 1])
             = Inr b'
      \<and> prob_true b' = [Num 0, Num 1] \<and> prob_pred b' = [Num (1 / 4), Num (7 / 12)])"
proof -
  let ?s = "new_multiclass [\<lparr>mask = [[1, 0], [0, 1]], pred = [[4 / 5, 3 / 10], [1 / 5, 7 / 10]], name_file = ''p0''\<rparr>,
                         \<lparr>mask = [[1, 1], [0, 0]], pred = [[2 / 5, 3 / 5], [3 / 5, 2 / 5]], name_file = ''p1''\<rparr>]
           [''a'', ''b''] (1 / 2) [1 / 4, 1 / 2] [0, 1 / 2, 1] [1, 1] False False"
  let ?b = "new_binary [[1, 0], [1, 1]] [[3 / 4, 1 / 4], [1 / 2, 1 / 2]] (1 / 2) [1 / 4, 1 / 2] [0, 1 / 2, 1]"
  have v: "map_sum id (\<lambda>s. (dict_bin_total s, dict_bin_true s, dict_bin_sums s)) (scan_dataset ?s)
            = Inr ([(''a'', [2, 2, 0]), (''b'', [2, 2, 0])], [(''a'', [1, 2, 0]), (''b'', [0, 1, 0])],
                   [(''a'', [7 / 10, 7 / 5, 0]), (''b'', [3 / 5, 13 / 10, 0])])"
    by code_simp
  then obtain self' where r: "scan_dataset ?s = Inr self'"
    and d: "dict_bin_total self' = [(''a'', [2, 2, 0]), (''b'', [2, 2, 0])]"
       "dict_bin_true self' = [(''a'', [1, 2, 0]), (''b'', [0, 1, 0])]"
       "dict_bin_sums self' = [(''a'', [7 / 10, 7 / 5, 0]), (''b'', [3 / 5, 13 / 10, 0])]"
    by (cases "scan_dataset ?s") auto
  have w: "map_sum id snd (threshold_loop ?b) = Inr ([1, 3], [1 / 4, 7 / 4, 0], [0, 3, 0], [1, 3, 0])"
    by code_simp
  have "\<not> isl (get_metrics_by_threshold ?b)" by code_simp
  then obtain b' where g: "get_metrics_by_threshold ?b = Inr b'" using not_isl_Inr by blast
  have a: "''a'' \<in> set (class_labels ?s)"
    by (simp add: new_multiclass_def init_frames_def create_data_for_metrics_def)
  note t = calibration_curve_bins [of ?s self' ?b b']
  from t r a obtain tot tm pm where
    x: "map_of (dict_bin_total self') ''a'' = Some tot" "map_of (dict_bin_true self') ''a'' = Some tm"
       "map_of (dict_bin_sums self') ''a'' = Some pm"
    and y: "map_of (dict_prob_true self') ''a''
            = Some (map (\<lambda>j. Num (tm ! j / tot ! j)) (filter (\<lambda>j. tot ! j \<noteq> 0) [0..<length tot]))"
       "map_of (dict_prob_pred self') ''a''
            = Some (map (\<lambda>j. Num (pm ! j / tot ! j)) (filter (\<lambda>j. tot ! j \<noteq> 0) [0..<length tot]))"
    by blast
  from x d have e: "tot = [2, 2, 0]" "tm = [1, 2, 0]" "pm = [7 / 10, 7 / 5, 0]" by simp_all
  have m: "map_of (dict_prob_true self') ''a'' = Some [Num (1 / 2), Num 1]
      \<and> map_of (dict_prob_pred self') ''a'' = Some [Num (7 / 20), Num (7 / 10)]"
    using y unfolding e by (simp add: upt_conv_Cons)
  from t g obtain b1 hc bs bt bn where l: "threshold_loop ?b = Inr (b1, (hc, bs, bt, bn))"
    and z: "prob_true b' = map (\<lambda>j. Num (bt ! j / bn ! j)) (filter (\<lambda>j. bn ! j \<noteq> 0) [0..<length bn])"
       "prob_pred b' = map (\<lambda>j. Num (bs ! j / bn ! j)) (filter (\<lambda>j. bn ! j \<noteq> 0) [0..<length bn])"
    by blast
  from l w have k: "bs = [1 / 4, 7 / 4, 0]" "bt = [0, 3, 0]" "bn = [1, 3, 0]" by simp_all
  have n: "prob_true b' = [Num 0, Num 1] \<and> prob_pred b' = [Num (1 / 4), Num (7 / 12)]"
    using z unfolding k by (simp add: upt_conv_Cons)
  from r d m g n show ?thesis by auto
qed

section \<open>The report tables\<close>

lemma frame_set_apply: "frame_set df r c v k = (if k = (r, c) then Some v else df k)"
  by (simp add: frame_set_def)












lemma cell_div_Num: "cell_div (Num w) t = Inr (if t = 0 then NaN else Num (w / t))"
  by simp


lemma reports_fields:
  assumes "metrics_to_df_reports s = Inr r"
  shows "class_labels r = class_labels s" and "counts_sample_per_class r = counts_sample_per_class s"
    and "weights r = weights s" and "weighted r = weighted s" and "nbr_class r = nbr_class s"
    and "dataset r = dataset s" and "threshold_range r = threshold_range s"
proof -
  from assms obtain df macro micro where
    "r = s\<lparr>df_report_classes := df, df_report_macro := macro, df_report_micro := micro\<rparr>"
    by (auto simp add: metrics_to_df_reports_def then_do_eq_Inr Let_def)
  then show "class_labels r = class_labels s" and "counts_sample_per_class r = counts_sample_per_class s"
    and "weights r = weights s" and "weighted r = weighted s" and "nbr_class r = nbr_class s"
    and "dataset r = dataset s" and "threshold_range r = threshold_range s"
    by simp_all
qed

















end
